theory Spec2Isabelle
  imports Main "HOL-Library.Sublist" "HOL-Library.AList"
begin

section \<open>JavaScript values used by the plugin\<close>

text \<open>
  An error object, as far as \<^verbatim>\<open>packages/node-resolve/src/index.js\<close> looks at it: the
  \<^verbatim>\<open>code\<close> property (absent on a plain \<^verbatim>\<open>Error\<close> or \<^verbatim>\<open>TypeError\<close>) and the message.
  A promise is modelled by its outcome: \<open>Inl err\<close> is a rejection (or a synchronous
  throw), \<open>Inr v\<close> a fulfilment.
\<close>

datatype js_error = JsError (code: "string option") (message: string)

type_synonym 'a outcome = "js_error + 'a"

definition MODULE_NOT_FOUND :: string where
  "MODULE_NOT_FOUND = ''MODULE_NOT_FOUND''"

definition ENOENT :: string where
  "ENOENT = ''ENOENT''"

text \<open>
  Truthiness of a value that is \<^verbatim>\<open>undefined\<close> (\<open>None\<close>) or a string: only a non-empty
  string is truthy.
\<close>

fun truthy :: "string option \<Rightarrow> bool" where
  "truthy None = False"
| "truthy (Some v) = (v \<noteq> [])"

section \<open>The probe cache (lines 37-66)\<close>

text \<open>
  \<^verbatim>\<open>fs.stat\<close>, \<^verbatim>\<open>fs.readFile\<close>, \<^verbatim>\<open>fs.exists\<close>, \<^verbatim>\<open>fs.realpath\<close> and
  \<^verbatim>\<open>fs.realpathSync\<close> are Node's; the file system is a parameter of the model. It is
  passed to every probe, so that two probes can see two different file systems (a
  transient fault that has gone at the second probe).
\<close>

record stat =
  stat_isFile :: bool
  stat_isDirectory :: bool

record filesystem =
  statAsync :: "string \<Rightarrow> stat outcome"
  readFileAsync :: "string \<Rightarrow> string outcome"
  existsAsync :: "string \<Rightarrow> bool"
  realpathAsync :: "string \<Rightarrow> string outcome"
  realpathSync :: "string \<Rightarrow> string outcome"

text \<open>
  \<^verbatim>\<open>cache(fn)\<close>: the JavaScript \<^verbatim>\<open>Map\<close> holds one promise per parameter; the model holds the
  promise's outcome. \<open>wrapped\<close> stores \<^verbatim>\<open>fn(param)\<close> when the map has no entry for
  \<^verbatim>\<open>param\<close>; the \<^verbatim>\<open>catch\<close> handler of a rejected promise deletes the entry and rethrows;
  the outcome of the stored promise goes to the callback \<^verbatim>\<open>done\<close>.
\<close>

type_synonym 'a promise_cache = "string \<Rightarrow> 'a outcome option"

definition wrapped :: "(string \<Rightarrow> 'a outcome) \<Rightarrow> string \<Rightarrow> 'a promise_cache \<Rightarrow> 'a outcome \<times> 'a promise_cache" where
  "wrapped fn param c =
     (let c1 = (if c param = None then c(param \<mapsto> fn param) else c)
      in case c1 param of
           Some (Inr result) \<Rightarrow> (Inr result, c1)
         | Some (Inl err) \<Rightarrow> (Inl err, c1(param := None))
         | None \<Rightarrow> (fn param, c1))"

definition clear :: "'a promise_cache" where
  "clear = (\<lambda>param. None)"

definition ignoreENOENT :: "js_error \<Rightarrow> bool outcome" where
  "ignoreENOENT err = (if code err = Some ENOENT then Inr False else Inl err)"

definition isDir_fn :: "filesystem \<Rightarrow> string \<Rightarrow> bool outcome" where
  "isDir_fn fs file =
     (case statAsync fs file of Inr st \<Rightarrow> Inr (stat_isDirectory st) | Inl err \<Rightarrow> ignoreENOENT err)"

definition isFile_fn :: "filesystem \<Rightarrow> string \<Rightarrow> bool outcome" where
  "isFile_fn fs file =
     (case statAsync fs file of Inr st \<Rightarrow> Inr (stat_isFile st) | Inl err \<Rightarrow> ignoreENOENT err)"

section \<open>The candidate loop (lines 113-137)\<close>

text \<open>
  \<^verbatim>\<open>resolveImportSpecifiers\<close> chains, for each candidate in turn, a \<^verbatim>\<open>then\<close> that keeps
  a truthy value or calls the resolver, and, for every candidate but the last, a \<^verbatim>\<open>catch\<close>
  that turns a \<^verbatim>\<open>MODULE_NOT_FOUND\<close> rejection into \<^verbatim>\<open>undefined\<close> and rethrows any other
  error. The resolver (\<^verbatim>\<open>resolveIdAsync\<close> with the request's options) runs in a state
  \<open>'s\<close> it may change. The promise \<open>p\<close> starts as \<^verbatim>\<open>Promise.resolve()\<close>.
\<close>

type_synonym 's resolver = "string \<Rightarrow> 's \<Rightarrow> string outcome \<times> 's"

definition then_resolve :: "'s resolver \<Rightarrow> string \<Rightarrow> string option outcome \<times> 's \<Rightarrow> string option outcome \<times> 's" where
  "then_resolve resolveIdAsync candidate ps =
     (case ps of
        (Inl err, s) \<Rightarrow> (Inl err, s)
      | (Inr v, s) \<Rightarrow>
          if truthy v then (Inr v, s)
          else (case resolveIdAsync candidate s of
                  (Inl err, s') \<Rightarrow> (Inl err, s')
                | (Inr contents, s') \<Rightarrow> (Inr (Some contents), s')))"

definition catch_not_found :: "string option outcome \<times> 's \<Rightarrow> string option outcome \<times> 's" where
  "catch_not_found ps =
     (case ps of
        (Inl err, s) \<Rightarrow> if code err \<noteq> Some MODULE_NOT_FOUND then (Inl err, s) else (Inr None, s)
      | (Inr v, s) \<Rightarrow> (Inr v, s))"

fun specifier_loop :: "'s resolver \<Rightarrow> string list \<Rightarrow> string option outcome \<times> 's \<Rightarrow> string option outcome \<times> 's" where
  "specifier_loop resolveIdAsync [] ps = ps"
| "specifier_loop resolveIdAsync (candidate # rest) ps =
     specifier_loop resolveIdAsync rest
       (if rest \<noteq> [] then catch_not_found (then_resolve resolveIdAsync candidate ps)
        else then_resolve resolveIdAsync candidate ps)"

definition resolveImportSpecifiers :: "'s resolver \<Rightarrow> string list \<Rightarrow> 's \<Rightarrow> string option outcome \<times> 's" where
  "resolveImportSpecifiers resolveIdAsync importSpecifierList s =
     specifier_loop resolveIdAsync importSpecifierList (Inr None, s)"

section \<open>Manifests and options\<close>

text \<open>
  A parsed \<^verbatim>\<open>package.json\<close> is a JSON object; an object is an association list with
  distinct keys, and \<open>map_of\<close> reads a property (\<open>None\<close> is \<^verbatim>\<open>undefined\<close>).
\<close>

datatype json = JNull | JBool bool | JNum int | JStr string | JArr "json list" | JObj "(string \<times> json) list"

type_synonym manifest = "(string \<times> json) list"

fun js_truthy :: "json option \<Rightarrow> bool" where
  "js_truthy None = False"
| "js_truthy (Some JNull) = False"
| "js_truthy (Some (JBool b)) = b"
| "js_truthy (Some (JNum n)) = (n \<noteq> 0)"
| "js_truthy (Some (JStr v)) = (v \<noteq> [])"
| "js_truthy (Some (JArr xs)) = True"
| "js_truthy (Some (JObj kvs)) = True"

text \<open>\<^verbatim>\<open>typeof v === 'object'\<close> holds of \<^verbatim>\<open>null\<close>, of arrays and of objects.\<close>

fun typeof_object :: "json option \<Rightarrow> bool" where
  "typeof_object (Some JNull) = True"
| "typeof_object (Some (JArr xs)) = True"
| "typeof_object (Some (JObj kvs)) = True"
| "typeof_object v = False"

type_synonym browser_map = "string \<Rightarrow> json option"

record packageInfo =
  packageJson :: manifest
  packageJsonPath :: string
  root :: string
  resolvedMainField :: string
  browserMappedMain :: bool
  resolvedEntryPoint :: json

record internalPackageInfo =
  cachedPkg :: manifest
  hasModuleSideEffects :: "string option \<Rightarrow> bool option"
  hasPackageEntry :: bool
  packageBrowserField :: "browser_map option"
  packageInfo :: packageInfo

text \<open>
  The mutable state: the three module-level probe caches, the maps a plugin instance
  owns, \<^verbatim>\<open>preserveSymlinks\<close> (assigned by \<^verbatim>\<open>buildStart\<close>), the warnings passed to
  \<^verbatim>\<open>this.warn\<close>, and the four variables of one \<^verbatim>\<open>resolveId\<close> call that its
  \<^verbatim>\<open>packageFilter\<close> closure assigns (named \<open>var_\<close> here; \<^verbatim>\<open>false\<close> and \<^verbatim>\<open>undefined\<close> are
  \<open>None\<close>).
\<close>

record state =
  readFile_cache :: "string promise_cache"
  isFile_cache :: "bool promise_cache"
  isDir_cache :: "bool promise_cache"
  packageInfoCache :: "string \<Rightarrow> internalPackageInfo option"
  browserMapCache :: "string option \<Rightarrow> browser_map option"
  idToPackageInfo :: "string option \<Rightarrow> packageInfo option"
  preserveSymlinks :: "bool option"
  warnings :: "string list"
  var_hasModuleSideEffects :: "string option \<Rightarrow> bool option"
  var_hasPackageEntry :: bool
  var_packageBrowserField :: "browser_map option"
  var_packageInfo :: "packageInfo option"

definition readFileCached :: "filesystem \<Rightarrow> string \<Rightarrow> state \<Rightarrow> string outcome \<times> state" where
  "readFileCached fs file s =
     (case wrapped (readFileAsync fs) file (readFile_cache s) of
        (res, c) \<Rightarrow> (res, s\<lparr>readFile_cache := c\<rparr>))"

definition isDirCached :: "filesystem \<Rightarrow> string \<Rightarrow> state \<Rightarrow> bool outcome \<times> state" where
  "isDirCached fs file s =
     (case wrapped (isDir_fn fs) file (isDir_cache s) of
        (res, c) \<Rightarrow> (res, s\<lparr>isDir_cache := c\<rparr>))"

definition isFileCached :: "filesystem \<Rightarrow> string \<Rightarrow> state \<Rightarrow> bool outcome \<times> state" where
  "isFileCached fs file s =
     (case wrapped (isFile_fn fs) file (isFile_cache s) of
        (res, c) \<Rightarrow> (res, s\<lparr>isFile_cache := c\<rparr>))"

text \<open>
  The options of the \<^verbatim>\<open>resolve\<close> package that \<^verbatim>\<open>resolveId\<close> builds, and the
  \<^verbatim>\<open>customResolveOptions\<close> that \<^verbatim>\<open>Object.assign\<close> lays over them.
\<close>

record resolveOptions =
  basedir :: string
  packageFilter :: "manifest \<Rightarrow> string \<Rightarrow> state \<Rightarrow> manifest outcome \<times> state"
  readFile :: "string \<Rightarrow> state \<Rightarrow> string outcome \<times> state"
  isFile :: "string \<Rightarrow> state \<Rightarrow> bool outcome \<times> state"
  isDirectory :: "string \<Rightarrow> state \<Rightarrow> bool outcome \<times> state"
  extensions_opt :: "string list"
  preserveSymlinks_opt :: "bool option"

record customOptions =
  custom_basedir :: "string option"
  custom_packageFilter :: "(manifest \<Rightarrow> string \<Rightarrow> state \<Rightarrow> manifest outcome \<times> state) option"
  custom_readFile :: "(string \<Rightarrow> state \<Rightarrow> string outcome \<times> state) option"
  custom_isFile :: "(string \<Rightarrow> state \<Rightarrow> bool outcome \<times> state) option"
  custom_isDirectory :: "(string \<Rightarrow> state \<Rightarrow> bool outcome \<times> state) option"
  custom_extensions :: "string list option"
  custom_preserveSymlinks :: "bool option"

definition no_custom :: customOptions where
  "no_custom = \<lparr>custom_basedir = None, custom_packageFilter = None, custom_readFile = None,
     custom_isFile = None, custom_isDirectory = None, custom_extensions = None,
     custom_preserveSymlinks = None\<rparr>"

definition assign :: "resolveOptions \<Rightarrow> customOptions \<Rightarrow> resolveOptions" where
  "assign target source =
     \<lparr>basedir = (case custom_basedir source of Some v \<Rightarrow> v | None \<Rightarrow> basedir target),
      packageFilter = (case custom_packageFilter source of Some v \<Rightarrow> v | None \<Rightarrow> packageFilter target),
      readFile = (case custom_readFile source of Some v \<Rightarrow> v | None \<Rightarrow> readFile target),
      isFile = (case custom_isFile source of Some v \<Rightarrow> v | None \<Rightarrow> isFile target),
      isDirectory = (case custom_isDirectory source of Some v \<Rightarrow> v | None \<Rightarrow> isDirectory target),
      extensions_opt = (case custom_extensions source of Some v \<Rightarrow> v | None \<Rightarrow> extensions_opt target),
      preserveSymlinks_opt =
        (case custom_preserveSymlinks source of Some v \<Rightarrow> Some v | None \<Rightarrow> preserveSymlinks_opt target)\<rparr>"

text \<open>
  What the plugin imports: Node's \<^verbatim>\<open>path\<close> functions, the set of built-in module
  names, \<^verbatim>\<open>is-module\<close>, \<^verbatim>\<open>createFilter\<close> of \<^verbatim>\<open>@rollup/pluginutils\<close>, \<^verbatim>\<open>process.cwd()\<close>
  and the \<^verbatim>\<open>resolve\<close> package, which calls back into the options it is given. Two
  things of the language itself are parameters as well: \<^verbatim>\<open>String.prototype.trim\<close>, and
  the names of the properties that every object inherits from \<^verbatim>\<open>Object.prototype\<close>
  (\<^verbatim>\<open>constructor\<close>, \<^verbatim>\<open>toString\<close> and the like).
\<close>

record env =
  builtins :: "string \<Rightarrow> bool"
  dirname :: "string \<Rightarrow> string"
  extname :: "string \<Rightarrow> string"
  normalize_path :: "string \<Rightarrow> string"
  resolve_path :: "string \<Rightarrow> string \<Rightarrow> string"
  cwd :: string
  isModule :: "string \<Rightarrow> bool"
  createFilter :: "json list \<Rightarrow> string \<Rightarrow> string option \<Rightarrow> bool"
  resolve_package :: "resolveOptions \<Rightarrow> string \<Rightarrow> state \<Rightarrow> string outcome \<times> state"
  trim :: "string \<Rightarrow> string"
  inherited :: "string \<Rightarrow> bool"

datatype dedupe_option = DedupeList "string list" | DedupeFunction "string \<Rightarrow> bool"

text \<open>
  An entry of \<^verbatim>\<open>options.only\<close> is a \<^verbatim>\<open>RegExp\<close> (its \<^verbatim>\<open>test\<close>, taken as a predicate: the
  \<^verbatim>\<open>test\<close> of a pattern without the \<^verbatim>\<open>g\<close> or \<^verbatim>\<open>y\<close> flag, which keeps no position between
  calls) or any other value \<^verbatim>\<open>o\<close>, kept as the string \<^verbatim>\<open>String(o)\<close>.
\<close>

datatype only_entry = OnlyRegExp "string \<Rightarrow> bool" | OnlyString string

record options =
  opt_mainFields :: "string list option"
  opt_module :: "bool option"
  opt_main :: "bool option"
  opt_jsnext :: "bool option"
  opt_browser :: bool
  opt_dedupe :: "dedupe_option option"
  opt_preferBuiltins :: "bool option"
  opt_customResolveOptions :: "customOptions option"
  opt_rootDir :: "string option"
  opt_jail :: "string option"
  opt_only :: "only_entry list option"
  opt_skip :: bool
  opt_extensions :: "string list option"
  opt_modulesOnly :: bool

section \<open>Setting the plugin up (lines 13-18, 68-104, 139-190)\<close>

definition DEFAULT_EXTS :: "string list" where
  "DEFAULT_EXTS = [''.mjs'', ''.js'', ''.json'', ''.node'']"

definition ES6_BROWSER_EMPTY :: string where
  "ES6_BROWSER_EMPTY = CHR 0x00 # ''node-resolve:empty.js''"

definition quote :: string where
  "quote = [CHR 0x27]"

text \<open>
  \<^verbatim>\<open>getMainFields\<close>: \<open>configured_fields\<close> is its first statement (lines 69-96), the list
  the options ask for. Each of the three deprecated options is \<open>None\<close> when its key is
  not in \<^verbatim>\<open>options\<close>; the \<^verbatim>\<open>console.warn\<close> of a deprecated option is not recorded.
\<close>

definition deprecated_field :: "bool option \<Rightarrow> string \<Rightarrow> bool \<Rightarrow> string list" where
  "deprecated_field option field defaultIncluded =
     (case option of
        Some v \<Rightarrow> if v then [field] else []
      | None \<Rightarrow> if defaultIncluded then [field] else [])"

definition configured_fields :: "options \<Rightarrow> string list outcome" where
  "configured_fields options =
     (case opt_mainFields options of
        Some mfs \<Rightarrow>
          if opt_module options \<noteq> None \<or> opt_main options \<noteq> None \<or> opt_jsnext options \<noteq> None
          then Inl (JsError None
            (''node-resolve: do not use deprecated '' @ quote @ ''module'' @ quote @ '', '' @
             quote @ ''main'' @ quote @ '', '' @ quote @ ''jsnext'' @ quote @
             '' options with '' @ quote @ ''mainFields'' @ quote))
          else Inr mfs
      | None \<Rightarrow>
          Inr (deprecated_field (opt_module options) ''module'' True @
               deprecated_field (opt_jsnext options) ''jsnext:main'' False @
               deprecated_field (opt_main options) ''main'' True))"

definition getMainFields :: "options \<Rightarrow> string list outcome" where
  "getMainFields options =
     (case configured_fields options of
        Inl err \<Rightarrow> Inl err
      | Inr mfs \<Rightarrow>
          if opt_browser options \<and> ''browser'' \<notin> set mfs then Inr (''browser'' # mfs)
          else if mfs = []
          then Inl (JsError None
            (''Please ensure at least one '' @ quote @ ''mainFields'' @ quote @ '' value is specified''))
          else Inr mfs)"

text \<open>
  \<^verbatim>\<open>String.prototype.split\<close> on a separator character: the pieces between separators,
  always at least one.
\<close>

fun js_split :: "(char \<Rightarrow> bool) \<Rightarrow> string \<Rightarrow> string list" where
  "js_split is_sep [] = [[]]"
| "js_split is_sep (c # cs) =
     (if is_sep c then [] # js_split is_sep cs
      else (case js_split is_sep cs of
              piece # pieces \<Rightarrow> (c # piece) # pieces
            | [] \<Rightarrow> [[c]]))"

text \<open>\<^verbatim>\<open>v[0] === c\<close>: false of the empty string, whose \<^verbatim>\<open>v[0]\<close> is \<^verbatim>\<open>undefined\<close>.\<close>

definition first_is :: "char \<Rightarrow> string \<Rightarrow> bool" where
  "first_is c v = (case v of [] \<Rightarrow> False | x # xs \<Rightarrow> x = c)"

text \<open>
  \<^verbatim>\<open>getPackageName\<close>; a scope with no second piece gives the template string's
  \<^verbatim>\<open>undefined\<close>.
\<close>

definition getPackageName :: "string \<Rightarrow> string option" where
  "getPackageName ident =
     (if first_is CHR ''.'' ident \<or> first_is CHR ''/'' ident then None
      else (case js_split (\<lambda>c. c = CHR ''/'') ident of
              [] \<Rightarrow> None
            | [name] \<Rightarrow> Some (if first_is CHR ''@'' name then name @ ''/undefined'' else name)
            | scope # name # rest \<Rightarrow>
                Some (if first_is CHR ''@'' scope then scope @ ''/'' @ name else scope)))"

text \<open>
  The constants \<^verbatim>\<open>nodeResolve\<close> computes once from the options and closes its hooks
  over. A string entry of \<^verbatim>\<open>only\<close> becomes the regular expression of that string with
  every special character escaped, between \<^verbatim>\<open>^\<close> and \<^verbatim>\<open>$\<close>: it matches that string and
  no other.
\<close>

record config =
  mainFields :: "string list"
  useBrowserOverrides :: bool
  dedupe :: dedupe_option
  isPreferBuiltinsSet :: bool
  preferBuiltins :: bool
  customResolveOptions :: customOptions
  rootDir :: string
  jail :: "string option"
  only :: "(string \<Rightarrow> bool) list option"
  extensions :: "string list"
  modulesOnly :: bool

definition only_pattern :: "only_entry \<Rightarrow> string \<Rightarrow> bool" where
  "only_pattern entry = (case entry of OnlyRegExp test \<Rightarrow> test | OnlyString v \<Rightarrow> (\<lambda>ident. ident = v))"

definition nodeResolve :: "env \<Rightarrow> options \<Rightarrow> config outcome" where
  "nodeResolve e options =
     (case getMainFields options of
        Inl err \<Rightarrow> Inl err
      | Inr mfs \<Rightarrow>
          if opt_skip options
          then Inl (JsError None
            (''options.skip is no longer supported '' @ [CHR 0xE2, CHR 0x80, CHR 0x94] @
             '' you should use the main Rollup `external` option instead''))
          else Inr
            \<lparr>mainFields = mfs,
             useBrowserOverrides = (''browser'' \<in> set mfs),
             dedupe = (case opt_dedupe options of Some d \<Rightarrow> d | None \<Rightarrow> DedupeList []),
             isPreferBuiltinsSet =
               (opt_preferBuiltins options = Some True \<or> opt_preferBuiltins options = Some False),
             preferBuiltins = (case opt_preferBuiltins options of Some b \<Rightarrow> b | None \<Rightarrow> True),
             customResolveOptions =
               (case opt_customResolveOptions options of Some c \<Rightarrow> c | None \<Rightarrow> no_custom),
             rootDir = (case opt_rootDir options of
                          Some dir \<Rightarrow> if dir \<noteq> [] then dir else cwd e
                        | None \<Rightarrow> cwd e),
             jail = opt_jail options,
             only = (case opt_only options of
                       Some entries \<Rightarrow> Some (map only_pattern entries)
                     | None \<Rightarrow> None),
             extensions = (case opt_extensions options of Some exts \<Rightarrow> exts | None \<Rightarrow> DEFAULT_EXTS),
             modulesOnly = opt_modulesOnly options\<rparr>)"

definition shouldDedupe :: "config \<Rightarrow> string \<Rightarrow> bool" where
  "shouldDedupe cfg importee =
     (case dedupe cfg of
        DedupeFunction f \<Rightarrow> f importee
      | DedupeList names \<Rightarrow>
          importee \<in> set names \<or>
          (case getPackageName importee of Some name \<Rightarrow> name \<in> set names | None \<Rightarrow> False))"

section \<open>The manifest cache (lines 192-290)\<close>

definition alwaysNull :: "string option \<Rightarrow> bool option" where
  "alwaysNull ident = None"

definition TypeError :: "string \<Rightarrow> js_error" where
  "TypeError msg = JsError None msg"

text \<open>The first of \<^verbatim>\<open>mainFields\<close> whose value in the manifest is a string, with that value.\<close>

fun first_string_field :: "manifest \<Rightarrow> string list \<Rightarrow> (string \<times> string) option" where
  "first_string_field pkg [] = None"
| "first_string_field pkg (field # rest) =
     (case map_of pkg field of
        Some (JStr v) \<Rightarrow> Some (field, v)
      | _ \<Rightarrow> first_string_field pkg rest)"

text \<open>
  \<^verbatim>\<open>Object.keys\<close> of the \<^verbatim>\<open>browser\<close> value, each key with its value: the entries of an
  object, the decimal indices of an array, a \<^verbatim>\<open>TypeError\<close> for \<^verbatim>\<open>null\<close>.
\<close>

function decimal :: "nat \<Rightarrow> string" where
  "decimal n = (if n < 10 then [char_of (48 + n)] else decimal (n div 10) @ [char_of (48 + n mod 10)])"
  by pat_completeness auto
termination
  by (relation "measure id") auto

fun object_entries :: "json \<Rightarrow> (string \<times> json) list outcome" where
  "object_entries (JObj kvs) = Inr kvs"
| "object_entries (JArr xs) = Inr (zip (map decimal [0..<length xs]) xs)"
| "object_entries v = Inl (TypeError ''Cannot convert undefined or null to object'')"

text \<open>
  One step of the \<^verbatim>\<open>reduce\<close> that builds the browser map (lines 243-260). A value is
  made absolute when it is a string that starts with a dot; the package browser field
  specification has strings and \<^verbatim>\<open>false\<close> as values, and the model leaves any other
  value as it is. The map is a plain object, so an assignment to the key \<^verbatim>\<open>__proto__\<close>
  creates no entry: a string or \<^verbatim>\<open>false\<close> is ignored there (an object or \<^verbatim>\<open>null\<close> would
  replace the prototype of the map, which the model does not follow).
\<close>

definition browser_step :: "env \<Rightarrow> config \<Rightarrow> string \<Rightarrow> string \<times> json \<Rightarrow> browser_map \<Rightarrow> browser_map" where
  "browser_step e cfg pkgRoot entry browser =
     (case entry of (key, v) \<Rightarrow>
        if key = ''__proto__'' then browser
        else
        let resolved = (case v of
                          JStr target \<Rightarrow>
                            if first_is CHR ''.'' target then JStr (resolve_path e pkgRoot target) else v
                        | _ \<Rightarrow> v);
            browser1 = browser(key \<mapsto> resolved)
        in if first_is CHR ''.'' key
           then let absoluteKey = resolve_path e pkgRoot key;
                    browser2 = browser1(absoluteKey \<mapsto> resolved)
                in if extname e key = []
                   then fold (\<lambda>ext b. b(absoluteKey @ ext := b key)) (extensions cfg) browser2
                   else browser2
           else browser1)"

text \<open>
  Lines 202-287: what \<^verbatim>\<open>getCachedPackageInfo\<close> computes on a cache miss, from the manifest
  and its (real) path. \<^verbatim>\<open>hasOwnProperty(pkg.main)\<close> is modelled for a \<^verbatim>\<open>main\<close> that is a
  string; \<^verbatim>\<open>path.resolve\<close> of a truthy \<^verbatim>\<open>main\<close> that is not a string throws.
\<close>

definition computePackageInfo :: "env \<Rightarrow> config \<Rightarrow> manifest \<Rightarrow> string \<Rightarrow> internalPackageInfo outcome" where
  "computePackageInfo e cfg pkg pkgPath =
     (let pkgRoot = dirname e pkgPath;
          chosen = first_string_field pkg (mainFields cfg);
          pkg1 = (case chosen of Some (field, v) \<Rightarrow> AList.update ''main'' (JStr v) pkg | None \<Rightarrow> pkg);
          overriddenMain = (chosen \<noteq> None);
          browserValue = map_of pkg1 ''browser'';
          useMap = (useBrowserOverrides cfg \<and> typeof_object browserValue)
      in case (if useMap
               then (case object_entries (the browserValue) of
                       Inl err \<Rightarrow> Inl err
                     | Inr entries \<Rightarrow> Inr (Some (fold (browser_step e cfg pkgRoot) entries Map.empty)))
               else Inr None) of
           Inl err \<Rightarrow> Inl err
         | Inr browserMap \<Rightarrow>
             (case (case (browserMap, map_of pkg1 ''main'') of
                      (Some bm, Some (JStr m)) \<Rightarrow>
                        (case bm m of
                           Some target \<Rightarrow> Inr (target, True)
                         | None \<Rightarrow> Inr (JStr (resolve_path e pkgRoot (if m \<noteq> [] then m else ''index.js'')), False))
                    | (_, Some (JStr m)) \<Rightarrow>
                        Inr (JStr (resolve_path e pkgRoot (if m \<noteq> [] then m else ''index.js'')), False)
                    | (_, other) \<Rightarrow>
                        if js_truthy other
                        then Inl (TypeError ''The path argument must be of type string'')
                        else Inr (JStr (resolve_path e pkgRoot ''index.js''), False)) of
                Inl err \<Rightarrow> Inl err
              | Inr (entryPoint, mapped) \<Rightarrow>
                  Inr \<lparr>cachedPkg = pkg1,
                       hasModuleSideEffects =
                         (case map_of pkg1 ''sideEffects'' of
                            Some (JBool b) \<Rightarrow> (\<lambda>ident. Some b)
                          | Some (JArr patterns) \<Rightarrow> (\<lambda>ident. Some (createFilter e patterns pkgRoot ident))
                          | _ \<Rightarrow> alwaysNull),
                       hasPackageEntry = (overriddenMain \<or> ''main'' \<in> set (mainFields cfg)),
                       packageBrowserField = browserMap,
                       packageInfo =
                         \<lparr>packageJson = pkg,
                          packageJsonPath = pkgPath,
                          root = pkgRoot,
                          resolvedMainField = (case chosen of Some (field, v) \<Rightarrow> field | None \<Rightarrow> ''main''),
                          browserMappedMain = mapped,
                          resolvedEntryPoint = entryPoint\<rparr>\<rparr>))"

text \<open>
  \<^verbatim>\<open>getCachedPackageInfo\<close>: the cache is read under the path the \<^verbatim>\<open>resolve\<close> package
  passed, and written under the real path that \<^verbatim>\<open>realpathSync\<close> gives unless symlinks
  are preserved. Nothing in the file removes an entry of \<^verbatim>\<open>packageInfoCache\<close>.
\<close>

definition getCachedPackageInfo ::
  "env \<Rightarrow> filesystem \<Rightarrow> config \<Rightarrow> manifest \<Rightarrow> string \<Rightarrow> state \<Rightarrow> internalPackageInfo outcome \<times> state" where
  "getCachedPackageInfo e fs cfg pkg pkgPath s =
     (case packageInfoCache s pkgPath of
        Some info \<Rightarrow> (Inr info, s)
      | None \<Rightarrow>
          (case (if preserveSymlinks s = Some True then Inr pkgPath else realpathSync fs pkgPath) of
             Inl err \<Rightarrow> (Inl err, s)
           | Inr realPath \<Rightarrow>
               (case computePackageInfo e cfg pkg realPath of
                  Inl err \<Rightarrow> (Inl err, s)
                | Inr info \<Rightarrow>
                    (Inr info, s\<lparr>packageInfoCache := (packageInfoCache s)(realPath \<mapsto> info)\<rparr>))))"

text \<open>
  The \<^verbatim>\<open>packageFilter\<close> closure of \<^verbatim>\<open>resolveId\<close> (lines 359-370): it assigns the four
  variables of the call and hands the cached manifest back to the \<^verbatim>\<open>resolve\<close> package.
\<close>

definition request_packageFilter ::
  "env \<Rightarrow> filesystem \<Rightarrow> config \<Rightarrow> manifest \<Rightarrow> string \<Rightarrow> state \<Rightarrow> manifest outcome \<times> state" where
  "request_packageFilter e fs cfg pkg pkgPath s =
     (case getCachedPackageInfo e fs cfg pkg pkgPath s of
        (Inl err, s') \<Rightarrow> (Inl err, s')
      | (Inr info, s') \<Rightarrow>
          (Inr (cachedPkg info),
           s'\<lparr>var_packageInfo := Some (packageInfo info),
              var_hasModuleSideEffects := hasModuleSideEffects info,
              var_hasPackageEntry := hasPackageEntry info,
              var_packageBrowserField := packageBrowserField info\<rparr>))"

section \<open>The hooks (lines 292-471)\<close>

text \<open>
  \<^verbatim>\<open>buildStart\<close> assigns \<^verbatim>\<open>preserveSymlinks\<close> from the build's options. Its version check
  reads \<^verbatim>\<open>peerDependencies\<close> of the package's own \<^verbatim>\<open>package.json\<close>, which is not among the
  sources, and is left out.
\<close>

definition buildStart :: "bool option \<Rightarrow> state \<Rightarrow> state" where
  "buildStart build_preserveSymlinks s = s\<lparr>preserveSymlinks := build_preserveSymlinks\<rparr>"

definition generateBundle :: "state \<Rightarrow> state" where
  "generateBundle s = s\<lparr>readFile_cache := clear, isFile_cache := clear, isDir_cache := clear\<rparr>"

definition load :: "string \<Rightarrow> string option" where
  "load importee = (if importee = ES6_BROWSER_EMPTY then Some ''export default {};'' else None)"

definition getPackageInfoForId :: "string option \<Rightarrow> state \<Rightarrow> packageInfo option" where
  "getPackageInfoForId ident s = idToPackageInfo s ident"

text \<open>
  What \<^verbatim>\<open>resolveId\<close> returns: \<^verbatim>\<open>null\<close>, a plain string, or the object
  \<^verbatim>\<open>{ id, moduleSideEffects }\<close>.
\<close>

datatype hook_result = Null | Plain string | Resolved (module_id: "string option") (moduleSideEffects: "bool option")

text \<open>Line 320: the base directory of the request.\<close>

definition request_basedir :: "env \<Rightarrow> config \<Rightarrow> string \<Rightarrow> string option \<Rightarrow> string" where
  "request_basedir e cfg importee importer =
     (case importer of
        None \<Rightarrow> rootDir cfg
      | Some file \<Rightarrow> if file = [] \<or> shouldDedupe cfg importee then rootDir cfg else dirname e file)"

text \<open>
  Lines 322-337: the browser map recorded for the importer. The map is a plain object,
  so \<^verbatim>\<open>browser[key]\<close> gives the manifest's entry when there is one, and otherwise what
  the object inherits under that name: a function, or for \<^verbatim>\<open>__proto__\<close> the prototype,
  in both cases a truthy value that is not a string. A \<^verbatim>\<open>false\<close> entry for the
  importee, or for its absolute form, ends the request with the stub id; a truthy
  value replaces the importee, and one that is not a string makes the
  \<^verbatim>\<open>importee.split\<close> of line 339 throw.
\<close>

datatype property = Undefined | Own json | Inherited

definition get_property :: "env \<Rightarrow> browser_map \<Rightarrow> string \<Rightarrow> property" where
  "get_property e browser key =
     (case browser key of
        Some v \<Rightarrow> Own v
      | None \<Rightarrow> if inherited e key then Inherited else Undefined)"

fun property_truthy :: "property \<Rightarrow> bool" where
  "property_truthy Undefined = False"
| "property_truthy (Own v) = js_truthy (Some v)"
| "property_truthy Inherited = True"

text \<open>\<^verbatim>\<open>a || b || c || d\<close>: the first truthy operand, or the last one.\<close>

fun first_truthy :: "property list \<Rightarrow> property" where
  "first_truthy [] = Undefined"
| "first_truthy [v] = v"
| "first_truthy (v # vs) = (if property_truthy v then v else first_truthy vs)"

datatype substitution = Stub | Importee string | NotAString

definition browser_substitution :: "env \<Rightarrow> config \<Rightarrow> string \<Rightarrow> string \<Rightarrow> string option \<Rightarrow> state \<Rightarrow> substitution" where
  "browser_substitution e cfg base importee importer s =
     (case browserMapCache s importer of
        None \<Rightarrow> Importee importee
      | Some browser \<Rightarrow>
          if \<not> useBrowserOverrides cfg then Importee importee
          else
            let resolvedImportee = resolve_path e base importee
            in if get_property e browser importee = Own (JBool False) \<or>
                  get_property e browser resolvedImportee = Own (JBool False)
               then Stub
               else
                 let browserImportee =
                       first_truthy
                         [get_property e browser importee,
                          get_property e browser resolvedImportee,
                          get_property e browser (resolvedImportee @ ''.js''),
                          get_property e browser (resolvedImportee @ ''.json'')]
                 in if property_truthy browserImportee
                    then (case browserImportee of Own (JStr v) \<Rightarrow> Importee v | _ \<Rightarrow> NotAString)
                    else Importee importee)"

text \<open>Lines 339-348: the id that the patterns of \<^verbatim>\<open>only\<close> are tested against.\<close>

definition is_path_sep :: "char \<Rightarrow> bool" where
  "is_path_sep c = (c = CHR ''/'' \<or> c = CHR 0x5C)"

definition only_id :: "env \<Rightarrow> string \<Rightarrow> string \<Rightarrow> string" where
  "only_id e base importee =
     (case js_split is_path_sep importee of
        [] \<Rightarrow> []
      | first # parts \<Rightarrow>
          if first_is CHR ''@'' first \<and> parts \<noteq> [] then first @ ''/'' @ hd parts
          else if first_is CHR ''.'' first then resolve_path e base importee
          else first)"

definition rejected_by_only :: "config \<Rightarrow> string \<Rightarrow> bool" where
  "rejected_by_only cfg ident =
     (case only cfg of None \<Rightarrow> False | Some patterns \<Rightarrow> \<not> list_ex (\<lambda>pattern. pattern ident) patterns)"

text \<open>
  Lines 381-405: the candidates. The regular expression \<^verbatim>\<open>/^\.?\.?\//\<close> is
  \<open>looks_like_path\<close>; the source applies it to \<^verbatim>\<open>importee[0]\<close>, the first character, and
  \<^verbatim>\<open>importee[0]\<close> of the empty string is \<^verbatim>\<open>undefined\<close>, whose \<^verbatim>\<open>match\<close> throws.
\<close>

definition looks_like_path :: "string \<Rightarrow> bool" where
  "looks_like_path v = (prefix ''/'' v \<or> prefix ''./'' v \<or> prefix ''../'' v)"

definition importSpecifierList :: "env \<Rightarrow> config \<Rightarrow> string \<Rightarrow> string option \<Rightarrow> string list outcome" where
  "importSpecifierList e cfg importee importer =
     (case (if importer = None
            then (case importee of
                    [] \<Rightarrow> Inl (TypeError ''Cannot read property match of undefined'')
                  | c # cs \<Rightarrow> Inr (if \<not> looks_like_path [c] then [''./'' @ importee] else []))
            else Inr []) of
        Inl err \<Rightarrow> Inl err
      | Inr root_candidates \<Rightarrow>
          Inr (root_candidates @
               (if builtins e importee \<and> (\<not> preferBuiltins cfg \<or> \<not> isPreferBuiltinsSet cfg)
                then [importee @ ''/''] else []) @
               [importee]))"

text \<open>
  Lines 357-379: the options handed to the \<^verbatim>\<open>resolve\<close> package, and \<^verbatim>\<open>resolveIdAsync\<close>,
  the promise of its callback.
\<close>

definition request_resolveOptions :: "env \<Rightarrow> filesystem \<Rightarrow> config \<Rightarrow> string \<Rightarrow> state \<Rightarrow> resolveOptions" where
  "request_resolveOptions e fs cfg base s =
     \<lparr>basedir = base,
      packageFilter = request_packageFilter e fs cfg,
      readFile = readFileCached fs,
      isFile = isFileCached fs,
      isDirectory = isDirCached fs,
      extensions_opt = extensions cfg,
      preserveSymlinks_opt = preserveSymlinks s\<rparr>"

definition resolveIdAsync :: "env \<Rightarrow> resolveOptions \<Rightarrow> state resolver" where
  "resolveIdAsync e opts file s = resolve_package e opts file s"

text \<open>
  Lines 410-428, the first \<^verbatim>\<open>then\<close>: the browser map of the package that was reached,
  then the real path. A truthy entry of the map that is not a string is outside the
  model, which rejects there.
\<close>

definition after_resolution :: "filesystem \<Rightarrow> string option outcome \<times> state \<Rightarrow> string option outcome \<times> state" where
  "after_resolution fs ps =
     (case ps of
        (Inl err, s) \<Rightarrow> (Inl err, s)
      | (Inr resolved, s) \<Rightarrow>
          (case (case (truthy resolved, var_packageBrowserField s) of
                   (True, Some field) \<Rightarrow>
                     (case field (the resolved) of
                        None \<Rightarrow> (Inr (False, resolved), s\<lparr>browserMapCache := (browserMapCache s)(resolved \<mapsto> field)\<rparr>)
                      | Some target \<Rightarrow>
                          if \<not> js_truthy (Some target)
                          then (Inr (True, Some ES6_BROWSER_EMPTY),
                                s\<lparr>browserMapCache := (browserMapCache s)(resolved \<mapsto> field)\<rparr>)
                          else (case target of
                                  JStr v \<Rightarrow>
                                    (Inr (False, Some v),
                                     s\<lparr>browserMapCache := (browserMapCache s)(Some v \<mapsto> field)\<rparr>)
                                | _ \<Rightarrow> (Inl (TypeError ''browser map entry is not a string''), s)))
                 | _ \<Rightarrow> (Inr (False, resolved), s)) of
             (Inl err, s1) \<Rightarrow> (Inl err, s1)
           | (Inr (True, stub), s1) \<Rightarrow> (Inr stub, s1)
           | (Inr (False, resolved1), s1) \<Rightarrow>
               if var_hasPackageEntry s1 \<and> preserveSymlinks s1 \<noteq> Some True \<and> truthy resolved1
               then (if existsAsync fs (the resolved1)
                     then (case realpathAsync fs (the resolved1) of
                             Inl err \<Rightarrow> (Inl err, s1)
                           | Inr real \<Rightarrow> (Inr (Some real), s1))
                     else (Inr resolved1, s1))
               else (Inr resolved1, s1)))"

text \<open>
  Lines 429-457, the second \<^verbatim>\<open>then\<close>. \<^verbatim>\<open>jail.trim(sep)\<close> is \<^verbatim>\<open>jail.trim()\<close>: the method
  takes no argument and strips white space, not separators.
  \<^verbatim>\<open>resolved.indexOf(x) !== 0\<close> says that \<^verbatim>\<open>x\<close> is not a prefix of \<^verbatim>\<open>resolved\<close>, and throws
  when \<^verbatim>\<open>resolved\<close> is \<^verbatim>\<open>undefined\<close>.
\<close>

definition builtin_warning :: "string \<Rightarrow> string option \<Rightarrow> string" where
  "builtin_warning importee resolved =
     ''preferring built-in module '' @ quote @ importee @ quote @ '' over local alternative at '' @
     quote @ (case resolved of Some v \<Rightarrow> v | None \<Rightarrow> ''undefined'') @ quote @ '', pass '' @
     quote @ ''preferBuiltins: false'' @ quote @ '' to disable this behavior or '' @
     quote @ ''preferBuiltins: true'' @ quote @ '' to disable this warning''"

definition is_builtin :: "env \<Rightarrow> string option \<Rightarrow> bool" where
  "is_builtin e resolved = (case resolved of Some v \<Rightarrow> builtins e v | None \<Rightarrow> False)"

definition accept :: "filesystem \<Rightarrow> env \<Rightarrow> config \<Rightarrow> string option \<Rightarrow> state \<Rightarrow> hook_result outcome \<times> state" where
  "accept fs e cfg resolved s =
     (if truthy resolved \<and> modulesOnly cfg
      then (case readFileAsync fs (the resolved) of
              Inl err \<Rightarrow> (Inl err, s)
            | Inr contents \<Rightarrow>
                if isModule e contents
                then (Inr (Resolved resolved (var_hasModuleSideEffects s resolved)), s)
                else (Inr Null, s))
      else (Inr (Resolved resolved (var_hasModuleSideEffects s resolved)), s))"

definition decide :: "filesystem \<Rightarrow> env \<Rightarrow> config \<Rightarrow> string \<Rightarrow> string option outcome \<times> state \<Rightarrow> hook_result outcome \<times> state" where
  "decide fs e cfg importee ps =
     (case ps of
        (Inl err, s) \<Rightarrow> (Inl err, s)
      | (Inr resolved, s0) \<Rightarrow>
          let s = s0\<lparr>idToPackageInfo := (idToPackageInfo s0)(resolved := var_packageInfo s0)\<rparr>
          in if var_hasPackageEntry s
             then (if is_builtin e resolved \<and> preferBuiltins cfg \<and> isPreferBuiltinsSet cfg
                   then (Inr Null, s)
                   else if builtins e importee \<and> preferBuiltins cfg
                   then (Inr Null,
                         if \<not> isPreferBuiltinsSet cfg
                         then s\<lparr>warnings := warnings s @ [builtin_warning importee resolved]\<rparr>
                         else s)
                   else if truthy (jail cfg)
                   then (case resolved of
                           None \<Rightarrow> (Inl (TypeError ''Cannot read property indexOf of undefined''), s)
                         | Some v \<Rightarrow>
                             if \<not> prefix (normalize_path e (trim e (the (jail cfg)))) v
                             then (Inr Null, s)
                             else accept fs e cfg resolved s)
                   else accept fs e cfg resolved s)
             else accept fs e cfg resolved s)"

text \<open>Line 458: \<^verbatim>\<open>.catch(() => null)\<close>.\<close>

definition catch_null :: "hook_result outcome \<times> state \<Rightarrow> hook_result outcome \<times> state" where
  "catch_null ps = (case ps of (Inl err, s) \<Rightarrow> (Inr Null, s) | (Inr v, s) \<Rightarrow> (Inr v, s))"

text \<open>
  Lines 352-458: the request from the point where the four variables are initialised.
  An exception of \<^verbatim>\<open>importee[0].match\<close> is thrown before the promise chain exists, so
  the final \<^verbatim>\<open>catch\<close> does not see it.
\<close>

definition declare_variables :: "state \<Rightarrow> state" where
  "declare_variables s =
     s\<lparr>var_hasModuleSideEffects := alwaysNull, var_hasPackageEntry := True,
       var_packageBrowserField := None, var_packageInfo := None\<rparr>"

definition request_resolver :: "env \<Rightarrow> filesystem \<Rightarrow> config \<Rightarrow> string \<Rightarrow> state \<Rightarrow> state resolver" where
  "request_resolver e fs cfg base s0 =
     resolveIdAsync e (assign (request_resolveOptions e fs cfg base s0) (customResolveOptions cfg))"

definition resolve_request ::
  "env \<Rightarrow> filesystem \<Rightarrow> config \<Rightarrow> string \<Rightarrow> string \<Rightarrow> string option \<Rightarrow> state \<Rightarrow> hook_result outcome \<times> state" where
  "resolve_request e fs cfg base importee importer s =
     (let s0 = declare_variables s
      in case importSpecifierList e cfg importee importer of
           Inl err \<Rightarrow> (Inl err, s0)
         | Inr candidates \<Rightarrow>
             catch_null
               (decide fs e cfg importee
                 (after_resolution fs
                   (resolveImportSpecifiers (request_resolver e fs cfg base s0) candidates s0))))"

definition resolveId ::
  "env \<Rightarrow> filesystem \<Rightarrow> config \<Rightarrow> string \<Rightarrow> string option \<Rightarrow> state \<Rightarrow> hook_result outcome \<times> state" where
  "resolveId e fs cfg importee importer s =
     (if importee = ES6_BROWSER_EMPTY then (Inr (Plain importee), s)
      else if CHR 0x00 \<in> set importee then (Inr Null, s)
      else
        let base = request_basedir e cfg importee importer
        in case browser_substitution e cfg base importee importer s of
             Stub \<Rightarrow> (Inr (Plain ES6_BROWSER_EMPTY), s)
           | NotAString \<Rightarrow> (Inl (TypeError ''importee.split is not a function''), s)
           | Importee importee1 \<Rightarrow>
               if rejected_by_only cfg (only_id e base importee1) then (Inr Null, s)
               else resolve_request e fs cfg base importee1 importer s)"

section \<open>Notions used in the statements\<close>

text \<open>
  To speak of the attempts a run of the candidate loop makes, a resolver is
  instrumented: \<open>logged r\<close> behaves as \<open>r\<close> and appends each call, with its outcome, to
  a log carried beside the state.
\<close>

type_synonym attempt = "string \<times> string outcome"

definition logged :: "'s resolver \<Rightarrow> ('s \<times> attempt list) resolver" where
  "logged r candidate sl =
     (case sl of (s, lg) \<Rightarrow>
        (case r candidate s of (res, s') \<Rightarrow> (res, (s', lg @ [(candidate, res)]))))"

definition not_found :: "string outcome \<Rightarrow> bool" where
  "not_found res = (case res of Inl err \<Rightarrow> code err = Some MODULE_NOT_FOUND | Inr v \<Rightarrow> False)"

definition as_value :: "string outcome \<Rightarrow> string option outcome" where
  "as_value res = (case res of Inl err \<Rightarrow> Inl err | Inr v \<Rightarrow> Inr (Some v))"

text \<open>
  What holds of the attempts \<open>new\<close> of a run over the candidates \<open>cs\<close> that ends in
  \<open>res\<close>: they are a prefix of the candidates, the outcome of the last one is the
  result, a success with a non-empty path is the last attempt, a
  \<^verbatim>\<open>MODULE_NOT_FOUND\<close> failure of a candidate that is not the last is followed by the
  next attempt, and a failure with any other error is the last attempt.
\<close>

definition run_ok :: "string list \<Rightarrow> attempt list \<Rightarrow> string option outcome \<Rightarrow> bool" where
  "run_ok cs new res \<longleftrightarrow>
     new \<noteq> [] \<and> prefix (map fst new) cs \<and> res = as_value (snd (last new)) \<and>
     (\<forall>i<length new. \<forall>p. snd (new ! i) = Inr p \<and> p \<noteq> [] \<longrightarrow> Suc i = length new) \<and>
     (\<forall>i<length new. not_found (snd (new ! i)) \<and> Suc i < length cs \<longrightarrow> Suc i < length new) \<and>
     (\<forall>i<length new. isl (snd (new ! i)) \<and> \<not> not_found (snd (new ! i)) \<longrightarrow> Suc i = length new)"

text \<open>
  A promise that is rejected with an error other than \<^verbatim>\<open>MODULE_NOT_FOUND\<close>, or fulfilled
  with a truthy value, passes through the rest of the chain unchanged and without a
  call of the resolver.
\<close>

definition settled :: "string option outcome \<Rightarrow> bool" where
  "settled p = (case p of Inl err \<Rightarrow> code err \<noteq> Some MODULE_NOT_FOUND | Inr v \<Rightarrow> truthy v)"

section \<open>A small project, to run the model on\<close>

text \<open>
  The files of a project under \<^verbatim>\<open>/project\<close>: a local package named like the built-in
  \<^verbatim>\<open>fs\<close>, a package \<^verbatim>\<open>widget\<close> whose manifest maps \<^verbatim>\<open>net\<close> to \<^verbatim>\<open>false\<close> for browsers, a
  file that cannot be read, and a file in the sibling directory \<^verbatim>\<open>/project-shared\<close>.
\<close>

definition sample_files :: "string list" where
  "sample_files =
     [''/project/main.js'',
      ''/project/node_modules/fs/package.json'',
      ''/project/node_modules/fs/index.js'',
      ''/project/node_modules/widget/package.json'',
      ''/project/node_modules/widget/index.js'',
      ''/project-shared/util.js'']"

definition EACCES :: js_error where
  "EACCES = JsError (Some ''EACCES'') ''permission denied''"

definition sample_fs :: filesystem where
  "sample_fs =
     \<lparr>statAsync = (\<lambda>file.
        if file = ''/project/locked.js'' then Inl EACCES
        else if file \<in> set sample_files then Inr \<lparr>stat_isFile = True, stat_isDirectory = False\<rparr>
        else Inl (JsError (Some ENOENT) ''no such file or directory'')),
      readFileAsync = (\<lambda>file.
        if file \<in> set sample_files then Inr ''export default 1;''
        else Inl (JsError (Some ENOENT) ''no such file or directory'')),
      existsAsync = (\<lambda>file. file \<in> set sample_files),
      realpathAsync = (\<lambda>file. Inr file),
      realpathSync = (\<lambda>file. Inr file)\<rparr>"

text \<open>The file system once the permissions of \<^verbatim>\<open>/project/locked.js\<close> are repaired.\<close>

definition repaired_fs :: filesystem where
  "repaired_fs =
     sample_fs\<lparr>statAsync := (\<lambda>file.
        if file = ''/project/locked.js'' \<or> file \<in> set sample_files
        then Inr \<lparr>stat_isFile = True, stat_isDirectory = False\<rparr>
        else Inl (JsError (Some ENOENT) ''no such file or directory''))\<rparr>"

definition sample_dirname :: "string \<Rightarrow> string" where
  "sample_dirname file = rev (drop 1 (dropWhile (\<lambda>c. c \<noteq> CHR ''/'') (rev file)))"

definition sample_resolve :: "string \<Rightarrow> string \<Rightarrow> string" where
  "sample_resolve base file =
     (if first_is CHR ''/'' file then file
      else if prefix ''../'' file then sample_dirname base @ ''/'' @ drop 3 file
      else if prefix ''./'' file then base @ ''/'' @ drop 2 file
      else base @ ''/'' @ file)"

definition sample_manifest :: "string \<Rightarrow> manifest" where
  "sample_manifest name =
     (if name = ''widget''
      then [(''name'', JStr ''widget''), (''main'', JStr ''index.js''),
            (''browser'', JObj [(''net'', JBool False)])]
      else [(''name'', JStr name), (''main'', JStr ''index.js'')])"

text \<open>
  A stand-in for the \<^verbatim>\<open>resolve\<close> package, enough for this project: a built-in name is
  answered by itself; a path is probed with the \<^verbatim>\<open>isFile\<close> it was given; any other
  specifier is a package under \<^verbatim>\<open>/project/node_modules\<close>, whose manifest goes through
  the \<^verbatim>\<open>packageFilter\<close> it was given.
\<close>

definition sample_resolve_package :: "resolveOptions \<Rightarrow> string \<Rightarrow> state \<Rightarrow> string outcome \<times> state" where
  "sample_resolve_package opts file s =
     (if file = ''fs'' \<or> file = ''path'' then (Inr file, s)
      else if first_is CHR ''.'' file \<or> first_is CHR ''/'' file
      then (case isFile opts (sample_resolve (basedir opts) file) s of
              (Inl err, s1) \<Rightarrow> (Inl err, s1)
            | (Inr True, s1) \<Rightarrow> (Inr (sample_resolve (basedir opts) file), s1)
            | (Inr False, s1) \<Rightarrow>
                (Inl (JsError (Some MODULE_NOT_FOUND) (''Cannot find module '' @ file)), s1))
      else
        let name = takeWhile (\<lambda>c. c \<noteq> CHR ''/'') file;
            dir = ''/project/node_modules/'' @ name
        in case readFile opts (dir @ ''/package.json'') s of
             (Inl err, s1) \<Rightarrow>
               (Inl (JsError (Some MODULE_NOT_FOUND) (''Cannot find module '' @ file)), s1)
           | (Inr body, s1) \<Rightarrow>
               (case packageFilter opts (sample_manifest name) (dir @ ''/package.json'') s1 of
                  (Inl err, s2) \<Rightarrow> (Inl err, s2)
                | (Inr pkg, s2) \<Rightarrow>
                    (case map_of pkg ''main'' of
                       Some (JStr m) \<Rightarrow> (Inr (dir @ ''/'' @ m), s2)
                     | _ \<Rightarrow> (Inr (dir @ ''/index.js''), s2))))"

text \<open>
  For the sample project: a \<^verbatim>\<open>trim\<close> that strips the ASCII white space, which is what
  \<^verbatim>\<open>String.prototype.trim\<close> does to a string of ASCII characters, and the property names
  of \<^verbatim>\<open>Object.prototype\<close>.
\<close>

definition is_space :: "char \<Rightarrow> bool" where
  "is_space c = (c \<in> set [CHR '' '', CHR 0x09, CHR 0x0A, CHR 0x0B, CHR 0x0C, CHR 0x0D])"

definition ascii_trim :: "string \<Rightarrow> string" where
  "ascii_trim v = rev (dropWhile is_space (rev (dropWhile is_space v)))"

definition object_prototype_names :: "string list" where
  "object_prototype_names =
     [''constructor'', ''hasOwnProperty'', ''isPrototypeOf'', ''propertyIsEnumerable'',
      ''toLocaleString'', ''toString'', ''valueOf'', ''__proto__'', ''__defineGetter__'',
      ''__defineSetter__'', ''__lookupGetter__'', ''__lookupSetter__'']"

definition sample_env :: env where
  "sample_env =
     \<lparr>builtins = (\<lambda>name. name \<in> set [''fs'', ''path'']),
      dirname = sample_dirname,
      extname = (\<lambda>file. []),
      normalize_path = (\<lambda>file. file),
      resolve_path = sample_resolve,
      cwd = ''/project'',
      isModule = (\<lambda>contents. True),
      createFilter = (\<lambda>patterns dir ident. True),
      resolve_package = sample_resolve_package,
      trim = ascii_trim,
      inherited = (\<lambda>name. name \<in> set object_prototype_names)\<rparr>"

definition sample_options :: options where
  "sample_options =
     \<lparr>opt_mainFields = None, opt_module = None, opt_main = None, opt_jsnext = None,
      opt_browser = False, opt_dedupe = None, opt_preferBuiltins = None,
      opt_customResolveOptions = None, opt_rootDir = None, opt_jail = None, opt_only = None,
      opt_skip = False, opt_extensions = None, opt_modulesOnly = False\<rparr>"

definition sample_config :: "options \<Rightarrow> config" where
  "sample_config options = projr (nodeResolve sample_env options)"

definition initial_state :: state where
  "initial_state =
     \<lparr>readFile_cache = clear, isFile_cache = clear, isDir_cache = clear,
      packageInfoCache = (\<lambda>file. None), browserMapCache = (\<lambda>ident. None),
      idToPackageInfo = (\<lambda>ident. None), preserveSymlinks = None, warnings = [],
      var_hasModuleSideEffects = alwaysNull, var_hasPackageEntry = True,
      var_packageBrowserField = None, var_packageInfo = None\<rparr>"

text \<open>The resolver of a request made from \<^verbatim>\<open>/project\<close> with the default options.\<close>

definition sample_resolver :: "state resolver" where
  "sample_resolver =
     resolveIdAsync sample_env
       (request_resolveOptions sample_env sample_fs (sample_config sample_options) ''/project''
          initial_state)"

definition browser_options :: options where
  "browser_options = sample_options\<lparr>opt_browser := True\<rparr>"

definition widget_resolved :: state where
  "widget_resolved =
     snd (resolveId sample_env sample_fs (sample_config browser_options) ''widget''
            (Some ''/project/main.js'') initial_state)"

text \<open>
  A first pass reads the manifest of the local package \<^verbatim>\<open>fs\<close>; before the next pass the
  manifest is edited on disk.
\<close>

definition first_pass :: state where
  "first_pass =
     snd (getCachedPackageInfo sample_env sample_fs (sample_config sample_options)
            (sample_manifest ''fs'') ''/project/node_modules/fs/package.json'' initial_state)"

definition edited_manifest :: manifest where
  "edited_manifest = [(''name'', JStr ''fs''), (''main'', JStr ''lib/rewritten.js'')]"

text \<open>
  The sample project set up for browsers with an allow-list: the regular expression
  \<^verbatim>\<open>/^wid/\<close> and the string \<^verbatim>\<open>@scope/pkg\<close>.
\<close>

definition allow_list_options :: options where
  "allow_list_options =
     browser_options\<lparr>opt_only := Some [OnlyRegExp (prefix ''wid''), OnlyString ''@scope/pkg'']\<rparr>"





section \<open>What the resolve package can do to the plugin\<close>

text \<open>
  The variables and caches of the plugin are local to its closures, so the \<^verbatim>\<open>resolve\<close>
  package changes them only by calling the functions that \<^verbatim>\<open>resolveId\<close> hands to it:
  \<open>plugin_callbacks e fs cfg s s'\<close> says that \<open>s'\<close> arises from \<open>s\<close> by a sequence of calls
  of \<^verbatim>\<open>isFile\<close>, \<^verbatim>\<open>isDirectory\<close>, \<^verbatim>\<open>readFile\<close> and \<^verbatim>\<open>packageFilter\<close>.
\<close>

inductive plugin_callbacks :: "env \<Rightarrow> filesystem \<Rightarrow> config \<Rightarrow> state \<Rightarrow> state \<Rightarrow> bool"
  for e fs cfg where
  no_call: "plugin_callbacks e fs cfg s s"
| isFile_call:
    "plugin_callbacks e fs cfg s s1 \<Longrightarrow> plugin_callbacks e fs cfg s (snd (isFileCached fs file s1))"
| isDirectory_call:
    "plugin_callbacks e fs cfg s s1 \<Longrightarrow> plugin_callbacks e fs cfg s (snd (isDirCached fs file s1))"
| readFile_call:
    "plugin_callbacks e fs cfg s s1 \<Longrightarrow> plugin_callbacks e fs cfg s (snd (readFileCached fs file s1))"
| packageFilter_call:
    "plugin_callbacks e fs cfg s s1 \<Longrightarrow>
     plugin_callbacks e fs cfg s (snd (request_packageFilter e fs cfg pkg pkgPath s1))"

text \<open>
  \<^verbatim>\<open>hasPackageEntry\<close> is true, and so is the flag of every manifest in the cache.
\<close>

definition entry_known :: "state \<Rightarrow> bool" where
  "entry_known s \<longleftrightarrow>
     var_hasPackageEntry s \<and> (\<forall>file info. packageInfoCache s file = Some info \<longrightarrow> hasPackageEntry info)"

section \<open>The candidate loop\<close>

lemma specifier_loop_settled:
  "settled p \<Longrightarrow> specifier_loop r cs (p, s) = (p, s)"
  by (induction cs) (auto simp: settled_def then_resolve_def catch_not_found_def split: sum.splits)

lemma specifier_loop_last:
  "\<not> truthy v \<Longrightarrow> specifier_loop (logged r) [c] (Inr v, (s, lg0)) =
     (as_value (fst (r c s)), (snd (r c s), lg0 @ [(c, fst (r c s))]))"
  by (auto simp: then_resolve_def logged_def as_value_def split: sum.splits prod.splits)

lemma specifier_loop_step:
  "\<not> truthy v \<Longrightarrow> rest \<noteq> [] \<Longrightarrow>
   specifier_loop (logged r) (c # rest) (Inr v, (s, lg0)) =
     (let res = fst (r c s); sl = (snd (r c s), lg0 @ [(c, res)]) in
      if not_found res then specifier_loop (logged r) rest (Inr None, sl)
      else if res = Inr [] then specifier_loop (logged r) rest (Inr (Some []), sl)
      else (as_value res, sl))"
  by (auto simp: then_resolve_def logged_def as_value_def catch_not_found_def not_found_def Let_def
        specifier_loop_settled settled_def
      split: sum.splits prod.splits)

lemma run_ok_single:
  "run_ok (c # rest) [(c, res)] (as_value res) \<longleftrightarrow> (not_found res \<longrightarrow> rest = [])"
  by (auto simp: run_ok_def)

lemma run_ok_Cons:
  assumes "run_ok rest new res" and "not_found o1 \<or> o1 = Inr []"
  shows "run_ok (c # rest) ((c, o1) # new) res"
  using assms unfolding run_ok_def
  by (auto simp: nth_Cons not_found_def split: nat.splits sum.splits)

lemma specifier_loop_run:
  "cs \<noteq> [] \<Longrightarrow> \<not> truthy v \<Longrightarrow>
   specifier_loop (logged r) cs (Inr v, (s, lg0)) = (res, (s', lg)) \<Longrightarrow>
   \<exists>new. lg = lg0 @ new \<and> run_ok cs new res"
proof (induction cs arbitrary: v s lg0)
  case Nil
  then show ?case by simp
next
  case (Cons c rest)
  let ?o = "fst (r c s)"
  let ?sl = "(snd (r c s), lg0 @ [(c, ?o)])"
  show ?case
  proof (cases "rest = []")
    case True
    with Cons.prems have "res = as_value ?o" "lg = lg0 @ [(c, ?o)]"
      using specifier_loop_last[of v r c s lg0] by simp_all
    with True show ?thesis by (auto simp: run_ok_single)
  next
    case False
    have step: "(let res = ?o; sl = ?sl in
      if not_found res then specifier_loop (logged r) rest (Inr None, sl)
      else if res = Inr [] then specifier_loop (logged r) rest (Inr (Some []), sl)
      else (as_value res, sl)) = (res, (s', lg))"
      using specifier_loop_step[OF Cons.prems(2) False, of r c s lg0] Cons.prems(3) by simp
    consider (missing) "not_found ?o" | (empty) "\<not> not_found ?o" "?o = Inr []"
      | (stop) "\<not> not_found ?o" "?o \<noteq> Inr []" by blast
    then show ?thesis
    proof cases
      case missing
      with step have "specifier_loop (logged r) rest (Inr None, ?sl) = (res, (s', lg))"
        by (simp add: Let_def)
      from Cons.IH[OF False _ this] obtain new
        where n: "lg = (lg0 @ [(c, ?o)]) @ new" "run_ok rest new res" by auto
      from missing have "not_found ?o \<or> ?o = Inr []" by simp
      from run_ok_Cons[OF n(2) this] n(1) show ?thesis by auto
    next
      case empty
      with step have "specifier_loop (logged r) rest (Inr (Some []), ?sl) = (res, (s', lg))"
        by (simp add: Let_def)
      from Cons.IH[OF False _ this] obtain new
        where n: "lg = (lg0 @ [(c, ?o)]) @ new" "run_ok rest new res" by auto
      from empty have "not_found ?o \<or> ?o = Inr []" by simp
      from run_ok_Cons[OF n(2) this] n(1) show ?thesis by auto
    next
      case stop
      with step have "res = as_value ?o" "lg = lg0 @ [(c, ?o)]"
        by (simp_all add: Let_def)
      with stop show ?thesis by (auto simp: run_ok_single)
    qed
  qed
qed

text \<open>The log changes nothing: without it, the run has the same result and state.\<close>

lemma then_resolve_logged:
  "map_prod id fst (then_resolve (logged r) c ps) = then_resolve r c (map_prod id fst ps)"
  by (cases ps) (auto simp: then_resolve_def logged_def split: sum.splits prod.splits)

lemma catch_not_found_logged:
  "map_prod id fst (catch_not_found ps) = catch_not_found (map_prod id fst ps)"
  by (cases ps) (auto simp: catch_not_found_def split: sum.splits)

lemma specifier_loop_logged:
  "map_prod id fst (specifier_loop (logged r) cs ps) = specifier_loop r cs (map_prod id fst ps)"
  by (induction cs arbitrary: ps) (simp_all add: then_resolve_logged catch_not_found_logged)

text \<open>
  C1. The candidates are attempted in list order, one after the other in the state
  the one before left (the attempts of a run are an initial piece of the list); the
  result of the run is the outcome of its last attempt; an attempt that succeeds with
  a path is the last attempt and its path the result, so no later candidate is
  attempted; after a \<^verbatim>\<open>MODULE_NOT_FOUND\<close> failure of a candidate that is not the last,
  the next candidate is attempted; and when every candidate was attempted and every
  attempt failed, the run fails with the error of the last candidate.
\<close>

theorem candidates_first_success_last_failure:
  assumes run: "resolveImportSpecifiers (logged r) cs (s, []) = (res, (s', lg))"
    and candidates: "cs \<noteq> []"
  shows "resolveImportSpecifiers r cs s = (res, s') \<and>
    prefix (map fst lg) cs \<and> lg \<noteq> [] \<and> res = as_value (snd (last lg)) \<and>
    (\<forall>i<length lg. \<forall>p. snd (lg ! i) = Inr p \<and> p \<noteq> [] \<longrightarrow>
        Suc i = length lg \<and> res = Inr (Some p)) \<and>
    (\<forall>i<length lg. not_found (snd (lg ! i)) \<and> Suc i < length cs \<longrightarrow> Suc i < length lg) \<and>
    (map fst lg = cs \<and> (\<forall>a\<in>set lg. isl (snd a)) \<longrightarrow>
        res = Inl (projl (snd (last lg))) \<and> fst (last lg) = last cs)"
proof -
  from run have loop: "specifier_loop (logged r) cs (Inr None, (s, [])) = (res, (s', lg))"
    by (simp add: resolveImportSpecifiers_def)
  from specifier_loop_run[OF candidates _ loop] have ok: "run_ok cs lg res" by auto
  have plain: "resolveImportSpecifiers r cs s = (res, s')"
    using specifier_loop_logged[of r cs "(Inr None, (s, []))"] loop
    by (simp add: resolveImportSpecifiers_def)
  from ok have ne: "lg \<noteq> []" and pre: "prefix (map fst lg) cs"
    and lst: "res = as_value (snd (last lg))"
    and succ: "\<forall>i<length lg. \<forall>p. snd (lg ! i) = Inr p \<and> p \<noteq> [] \<longrightarrow> Suc i = length lg"
    and nxt: "\<forall>i<length lg. not_found (snd (lg ! i)) \<and> Suc i < length cs \<longrightarrow> Suc i < length lg"
    by (simp_all add: run_ok_def)
  have succ_res: "\<forall>i<length lg. \<forall>p. snd (lg ! i) = Inr p \<and> p \<noteq> [] \<longrightarrow>
        Suc i = length lg \<and> res = Inr (Some p)"
  proof (intro allI impI)
    fix i p assume i: "i < length lg" and sp: "snd (lg ! i) = Inr p \<and> p \<noteq> []"
    with succ have e: "Suc i = length lg" by blast
    then have "i = length lg - 1" by simp
    with ne have "last lg = lg ! i" by (simp add: last_conv_nth)
    with lst sp e show "Suc i = length lg \<and> res = Inr (Some p)" by (simp add: as_value_def)
  qed
  have all_fail: "map fst lg = cs \<and> (\<forall>a\<in>set lg. isl (snd a)) \<longrightarrow>
        res = Inl (projl (snd (last lg))) \<and> fst (last lg) = last cs"
  proof (intro impI conjI)
    assume a: "map fst lg = cs \<and> (\<forall>a\<in>set lg. isl (snd a))"
    with ne have "isl (snd (last lg))" by simp
    with lst show "res = Inl (projl (snd (last lg)))"
      by (cases "snd (last lg)") (simp_all add: as_value_def)
    from a ne show "fst (last lg) = last cs" by (auto simp: last_map)
  qed
  from plain pre ne lst succ_res nxt all_fail show ?thesis by blast
qed

lemma sample_run_found:
  "fst (resolveImportSpecifiers (logged sample_resolver) [''./fs'', ''fs/'', ''fs''] (initial_state, []))
     = Inr (Some ''/project/node_modules/fs/index.js'')"
  "snd (snd (resolveImportSpecifiers (logged sample_resolver) [''./fs'', ''fs/'', ''fs''] (initial_state, [])))
     = [(''./fs'', Inl (JsError (Some MODULE_NOT_FOUND) ''Cannot find module ./fs'')),
        (''fs/'', Inr ''/project/node_modules/fs/index.js'')]"
  by code_simp+

lemma sample_run_missing:
  "snd (snd (resolveImportSpecifiers (logged sample_resolver) [''./missing'', ''missing''] (initial_state, [])))
     = [(''./missing'', Inl (JsError (Some MODULE_NOT_FOUND) ''Cannot find module ./missing'')),
        (''missing'', Inl (JsError (Some MODULE_NOT_FOUND) ''Cannot find module missing''))]"
  by code_simp

theorem candidates_first_success_last_failure_witness:
  "fst (resolveImportSpecifiers sample_resolver [''./fs'', ''fs/'', ''fs''] initial_state)
     = Inr (Some ''/project/node_modules/fs/index.js'') \<and>
   prefix [''./fs'', ''fs/''] [''./fs'', ''fs/'', ''fs''] \<and>
   fst (resolveImportSpecifiers sample_resolver [''./missing'', ''missing''] initial_state)
     = Inl (JsError (Some MODULE_NOT_FOUND) ''Cannot find module missing'')"
proof -
  let ?found = "resolveImportSpecifiers (logged sample_resolver) [''./fs'', ''fs/'', ''fs''] (initial_state, [])"
  let ?missing = "resolveImportSpecifiers (logged sample_resolver) [''./missing'', ''missing''] (initial_state, [])"
  have f: "?found = (fst ?found, (fst (snd ?found), snd (snd ?found)))" by simp
  have m: "?missing = (fst ?missing, (fst (snd ?missing), snd (snd ?missing)))" by simp
  note tf = candidates_first_success_last_failure[OF f]
  note tm = candidates_first_success_last_failure[OF m]
  from tf have f1: "resolveImportSpecifiers sample_resolver [''./fs'', ''fs/'', ''fs''] initial_state
      = (fst ?found, fst (snd ?found))"
    and f2: "prefix (map fst (snd (snd ?found))) [''./fs'', ''fs/'', ''fs'']" by simp_all
  from tm have m1: "resolveImportSpecifiers sample_resolver [''./missing'', ''missing''] initial_state
      = (fst ?missing, fst (snd ?missing))"
    and m2: "fst ?missing = as_value (snd (last (snd (snd ?missing))))" by simp_all
  from f1 have "fst (resolveImportSpecifiers sample_resolver [''./fs'', ''fs/'', ''fs''] initial_state)
      = Inr (Some ''/project/node_modules/fs/index.js'')"
    by (simp only: fst_conv sample_run_found)
  moreover from f2 have "prefix [''./fs'', ''fs/''] [''./fs'', ''fs/'', ''fs'']"
    by (simp only: sample_run_found list.map fst_conv)
  moreover from m1 m2 have "fst (resolveImportSpecifiers sample_resolver [''./missing'', ''missing''] initial_state)
      = Inl (JsError (Some MODULE_NOT_FOUND) ''Cannot find module missing'')"
    by (simp add: sample_run_missing as_value_def)
  ultimately show ?thesis by blast
qed

text \<open>
  What the run does besides: a failure with an error other than \<^verbatim>\<open>MODULE_NOT_FOUND\<close> is
  rethrown by every later \<^verbatim>\<open>catch\<close>, so it is the last attempt of the run and its
  result. The list that \<^verbatim>\<open>resolveId\<close> builds always ends with the specifier itself.
\<close>

lemma other_failure_ends_run:
  assumes "resolveImportSpecifiers (logged r) cs (s, []) = (res, (s', lg))" and "cs \<noteq> []"
    and "i < length lg" and "snd (lg ! i) = Inl err" and "code err \<noteq> Some MODULE_NOT_FOUND"
  shows "Suc i = length lg \<and> res = Inl err"
proof -
  from assms(1) have "specifier_loop (logged r) cs (Inr None, (s, [])) = (res, (s', lg))"
    by (simp add: resolveImportSpecifiers_def)
  from specifier_loop_run[OF assms(2) _ this] have ok: "run_ok cs lg res" by auto
  with assms(3-5) have e: "Suc i = length lg" by (auto simp: run_ok_def not_found_def)
  then have "last lg = lg ! i" by (metis diff_Suc_1 last_conv_nth length_0_conv nat.distinct(1))
  with ok assms(4) e show ?thesis by (simp add: run_ok_def as_value_def)
qed

lemma candidates_not_empty:
  "importSpecifierList e cfg importee importer = Inr candidates \<Longrightarrow>
   candidates \<noteq> [] \<and> last candidates = importee"
  by (auto simp: importSpecifierList_def split: if_splits list.splits)

section \<open>The probe cache\<close>

lemma wrapped_miss_fulfilled:
  "c param = None \<Longrightarrow> fn param = Inr v \<Longrightarrow> wrapped fn param c = (Inr v, c(param \<mapsto> Inr v))"
  by (simp add: wrapped_def)

lemma wrapped_miss_rejected:
  "c param = None \<Longrightarrow> fn param = Inl err \<Longrightarrow> wrapped fn param c = (Inl err, c)"
  by (auto simp: wrapped_def fun_eq_iff)

lemma wrapped_hit:
  "c param = Some (Inr v) \<Longrightarrow> wrapped fn param c = (Inr v, c)"
  by (simp add: wrapped_def)

lemma wrapped_miss:
  "c param = None \<Longrightarrow> fst (wrapped fn param c) = fn param"
  by (cases "fn param") (simp_all add: wrapped_miss_fulfilled wrapped_miss_rejected)

lemma isFileCached_miss:
  "isFile_cache s file = None \<Longrightarrow> fst (isFileCached fs file s) = isFile_fn fs file"
  by (simp add: isFileCached_def wrapped_miss split: prod.splits)
    (metis fst_conv wrapped_miss)

lemma isDirCached_miss:
  "isDir_cache s file = None \<Longrightarrow> fst (isDirCached fs file s) = isDir_fn fs file"
  by (simp add: isDirCached_def split: prod.splits) (metis fst_conv wrapped_miss)

lemma isFileCached_rejected:
  "isFile_cache s file = None \<Longrightarrow> isFile_fn fs file = Inl err \<Longrightarrow> isFileCached fs file s = (Inl err, s)"
  by (simp add: isFileCached_def wrapped_miss_rejected)

lemma isDirCached_rejected:
  "isDir_cache s file = None \<Longrightarrow> isDir_fn fs file = Inl err \<Longrightarrow> isDirCached fs file s = (Inl err, s)"
  by (simp add: isDirCached_def wrapped_miss_rejected)

lemma isFileCached_fulfilled:
  "isFile_cache s file = None \<Longrightarrow> isFileCached fs file s = (Inr b, s') \<Longrightarrow>
   isFile_cache s' file = Some (Inr b)"
  by (cases "isFile_fn fs file")
     (auto simp: isFileCached_def wrapped_miss_rejected wrapped_miss_fulfilled)

lemma isDirCached_fulfilled:
  "isDir_cache s file = None \<Longrightarrow> isDirCached fs file s = (Inr b, s') \<Longrightarrow>
   isDir_cache s' file = Some (Inr b)"
  by (cases "isDir_fn fs file")
     (auto simp: isDirCached_def wrapped_miss_rejected wrapped_miss_fulfilled)

lemma isFileCached_hit:
  "isFile_cache s file = Some (Inr b) \<Longrightarrow> isFileCached fs file s = (Inr b, s)"
  by (simp add: isFileCached_def wrapped_hit)

lemma isDirCached_hit:
  "isDir_cache s file = Some (Inr b) \<Longrightarrow> isDirCached fs file s = (Inr b, s)"
  by (simp add: isDirCached_def wrapped_hit)

lemma generateBundle_probe_caches:
  "isFile_cache (generateBundle s) file = None" "isDir_cache (generateBundle s) file = None"
  "readFile_cache (generateBundle s) file = None"
  by (simp_all add: generateBundle_def clear_def)

lemma stat_failure:
  "statAsync fs file = Inl err \<Longrightarrow> isFile_fn fs file = ignoreENOENT err"
  "statAsync fs file = Inl err \<Longrightarrow> isDir_fn fs file = ignoreENOENT err"
  by (simp_all add: isFile_fn_def isDir_fn_def)

text \<open>
  C3. For a probe of a path the cache has no entry for (so that the underlying
  \<^verbatim>\<open>stat\<close> runs), through \<^verbatim>\<open>isFileCached\<close> and through \<^verbatim>\<open>isDirCached\<close>: a failure with
  code \<^verbatim>\<open>ENOENT\<close> gives the result \<^verbatim>\<open>false\<close>, not an error; any other failure reaches the
  prober as that error, the cache has no entry for the path afterwards, and the next
  probe of the path gives what the underlying operation gives on the file system of
  that moment; a fulfilled result is returned by every later probe, whatever the file
  system has become, until \<^verbatim>\<open>generateBundle\<close> clears the cache, after which the
  underlying operation runs again.
\<close>

theorem probe_cache_failures:
  assumes miss: "isFile_cache s file = None" "isDir_cache s file = None"
    and file_probe: "isFileCached fs file s = (rf, sf)"
    and dir_probe: "isDirCached fs file s = (rd, sd)"
  shows "(\<forall>err. statAsync fs file = Inl err \<and> code err = Some ENOENT \<longrightarrow>
            rf = Inr False \<and> rd = Inr False) \<and>
         (\<forall>err. statAsync fs file = Inl err \<and> code err \<noteq> Some ENOENT \<longrightarrow>
            rf = Inl err \<and> rd = Inl err \<and>
            isFile_cache sf file = None \<and> isDir_cache sd file = None \<and>
            (\<forall>fs2. fst (isFileCached fs2 file sf) = isFile_fn fs2 file) \<and>
            (\<forall>fs2. fst (isDirCached fs2 file sd) = isDir_fn fs2 file)) \<and>
         (\<forall>b. rf = Inr b \<longrightarrow>
            (\<forall>fs2. isFileCached fs2 file sf = (Inr b, sf)) \<and>
            (\<forall>fs2. fst (isFileCached fs2 file (generateBundle sf)) = isFile_fn fs2 file)) \<and>
         (\<forall>b. rd = Inr b \<longrightarrow>
            (\<forall>fs2. isDirCached fs2 file sd = (Inr b, sd)) \<and>
            (\<forall>fs2. fst (isDirCached fs2 file (generateBundle sd)) = isDir_fn fs2 file))"
proof (intro conjI allI impI)
  fix err assume a: "statAsync fs file = Inl err \<and> code err = Some ENOENT"
  from isFileCached_miss[OF miss(1), of fs] file_probe a show "rf = Inr False"
    by (simp add: stat_failure ignoreENOENT_def)
  from isDirCached_miss[OF miss(2), of fs] dir_probe a show "rd = Inr False"
    by (simp add: stat_failure ignoreENOENT_def)
next
  fix err assume a: "statAsync fs file = Inl err \<and> code err \<noteq> Some ENOENT"
  then have f: "isFile_fn fs file = Inl err" and d: "isDir_fn fs file = Inl err"
    by (simp_all add: stat_failure ignoreENOENT_def)
  from isFileCached_rejected[OF miss(1) f] file_probe have rf: "rf = Inl err" "sf = s" by simp_all
  from isDirCached_rejected[OF miss(2) d] dir_probe have rd: "rd = Inl err" "sd = s" by simp_all
  from rf show "rf = Inl err" by simp
  from rd show "rd = Inl err" by simp
  from rf miss show "isFile_cache sf file = None" by simp
  from rd miss show "isDir_cache sd file = None" by simp
  fix fs2
  from rf miss show "fst (isFileCached fs2 file sf) = isFile_fn fs2 file"
    by (simp add: isFileCached_miss)
  from rd miss show "fst (isDirCached fs2 file sd) = isDir_fn fs2 file"
    by (simp add: isDirCached_miss)
next
  fix b fs2 assume "rf = Inr b"
  with file_probe have "isFile_cache sf file = Some (Inr b)"
    using isFileCached_fulfilled[OF miss(1)] by simp
  then show "isFileCached fs2 file sf = (Inr b, sf)" by (rule isFileCached_hit)
  show "fst (isFileCached fs2 file (generateBundle sf)) = isFile_fn fs2 file"
    by (simp add: isFileCached_miss generateBundle_probe_caches)
next
  fix b fs2 assume "rd = Inr b"
  with dir_probe have "isDir_cache sd file = Some (Inr b)"
    using isDirCached_fulfilled[OF miss(2)] by simp
  then show "isDirCached fs2 file sd = (Inr b, sd)" by (rule isDirCached_hit)
  show "fst (isDirCached fs2 file (generateBundle sd)) = isDir_fn fs2 file"
    by (simp add: isDirCached_miss generateBundle_probe_caches)
qed

lemma sample_probe_facts:
  "statAsync sample_fs ''/project/locked.js'' = Inl EACCES"
  "code EACCES \<noteq> Some ENOENT"
  "statAsync sample_fs ''/project/absent.js'' = Inl (JsError (Some ENOENT) ''no such file or directory'')"
  "isFile_fn repaired_fs ''/project/locked.js'' = Inr True"
  "isFile_fn sample_fs ''/project/main.js'' = Inr True"
  "isFile_cache initial_state file = None"
  "isDir_cache initial_state file = None"
  by (simp_all add: sample_fs_def repaired_fs_def EACCES_def ENOENT_def isFile_fn_def
      sample_files_def initial_state_def clear_def)

theorem probe_cache_failures_witness:
  "fst (isFileCached sample_fs ''/project/locked.js'' initial_state) = Inl EACCES \<and>
   fst (isFileCached repaired_fs ''/project/locked.js''
          (snd (isFileCached sample_fs ''/project/locked.js'' initial_state))) = Inr True \<and>
   fst (isDirCached sample_fs ''/project/absent.js'' initial_state) = Inr False \<and>
   fst (isFileCached (sample_fs\<lparr>statAsync := (\<lambda>file. Inl EACCES)\<rparr>) ''/project/main.js''
          (snd (isFileCached sample_fs ''/project/main.js'' initial_state))) = Inr True"
proof -
  have locked: "fst (isFileCached sample_fs ''/project/locked.js'' initial_state) = Inl EACCES \<and>
    fst (isFileCached repaired_fs ''/project/locked.js''
          (snd (isFileCached sample_fs ''/project/locked.js'' initial_state))) = Inr True"
    using probe_cache_failures[of initial_state "''/project/locked.js''" sample_fs
        "fst (isFileCached sample_fs ''/project/locked.js'' initial_state)"
        "snd (isFileCached sample_fs ''/project/locked.js'' initial_state)"
        "fst (isDirCached sample_fs ''/project/locked.js'' initial_state)"
        "snd (isDirCached sample_fs ''/project/locked.js'' initial_state)"]
    by (simp add: sample_probe_facts)
  have absent: "fst (isDirCached sample_fs ''/project/absent.js'' initial_state) = Inr False"
    using probe_cache_failures[of initial_state "''/project/absent.js''" sample_fs
        "fst (isFileCached sample_fs ''/project/absent.js'' initial_state)"
        "snd (isFileCached sample_fs ''/project/absent.js'' initial_state)"
        "fst (isDirCached sample_fs ''/project/absent.js'' initial_state)"
        "snd (isDirCached sample_fs ''/project/absent.js'' initial_state)"]
    by (simp add: sample_probe_facts ENOENT_def)
  have first: "fst (isFileCached sample_fs ''/project/main.js'' initial_state) = Inr True"
    by (simp add: isFileCached_miss sample_probe_facts)
  have p1: "isFileCached sample_fs ''/project/main.js'' initial_state =
      (fst (isFileCached sample_fs ''/project/main.js'' initial_state),
       snd (isFileCached sample_fs ''/project/main.js'' initial_state))" by simp
  have p2: "isDirCached sample_fs ''/project/main.js'' initial_state =
      (fst (isDirCached sample_fs ''/project/main.js'' initial_state),
       snd (isDirCached sample_fs ''/project/main.js'' initial_state))" by simp
  note main = probe_cache_failures[OF sample_probe_facts(6) sample_probe_facts(7) p1 p2]
  note memo = main[THEN conjunct2, THEN conjunct2, THEN conjunct1, rule_format, OF first]
  from memo[THEN conjunct1, rule_format, of "sample_fs\<lparr>statAsync := (\<lambda>file. Inl EACCES)\<rparr>"]
  have kept: "fst (isFileCached (sample_fs\<lparr>statAsync := (\<lambda>file. Inl EACCES)\<rparr>) ''/project/main.js''
          (snd (isFileCached sample_fs ''/project/main.js'' initial_state))) = Inr True"
    by simp
  from locked absent kept show ?thesis by blast
qed

section \<open>Ids of other plugins and the empty stub\<close>

text \<open>
  C10. For every importee that contains the null character and is not the empty-stub
  id, \<^verbatim>\<open>resolveId\<close> returns \<^verbatim>\<open>null\<close> and changes nothing, whatever the importer, the
  configuration, the file system and the state.
\<close>

theorem null_character_ids_unhandled:
  "CHR 0x00 \<in> set importee \<Longrightarrow> importee \<noteq> ES6_BROWSER_EMPTY \<Longrightarrow>
   resolveId e fs cfg importee importer s = (Inr Null, s)"
  by (simp add: resolveId_def)

theorem null_character_ids_unhandled_witness:
  "CHR 0x00 \<in> set (CHR 0x00 # ''commonjs-proxy:/project/main.js'') \<and>
   CHR 0x00 # ''commonjs-proxy:/project/main.js'' \<noteq> ES6_BROWSER_EMPTY \<and>
   resolveId sample_env sample_fs (sample_config sample_options)
     (CHR 0x00 # ''commonjs-proxy:/project/main.js'') (Some ''/project/main.js'') initial_state
     = (Inr Null, initial_state)"
proof -
  have 1: "CHR 0x00 \<in> set (CHR 0x00 # ''commonjs-proxy:/project/main.js'')" by simp
  have 2: "CHR 0x00 # ''commonjs-proxy:/project/main.js'' \<noteq> ES6_BROWSER_EMPTY"
    by (simp add: ES6_BROWSER_EMPTY_def)
  from 1 2 null_character_ids_unhandled[OF 1 2] show ?thesis by blast
qed

lemma getMainFields_browser:
  "getMainFields options = Inr mfs \<Longrightarrow> opt_browser options \<Longrightarrow> ''browser'' \<in> set mfs"
  by (cases "configured_fields options") (auto simp: getMainFields_def split: if_splits)

lemma browser_mode_setup:
  assumes "nodeResolve e options = Inr cfg" and "opt_browser options"
  shows "useBrowserOverrides cfg"
proof (cases "getMainFields options")
  case (Inl err)
  with assms(1) show ?thesis by (simp add: nodeResolve_def)
next
  case (Inr mfs)
  from getMainFields_browser[OF Inr assms(2)] have "''browser'' \<in> set mfs" .
  with assms(1) Inr show ?thesis by (auto simp: nodeResolve_def split: if_splits)
qed

text \<open>
  C8. The empty-stub id is the constant made of the null character and
  \<^verbatim>\<open>node-resolve:empty.js\<close>; it differs from every string without a null character,
  so from every path of a file; \<^verbatim>\<open>resolveId\<close> maps it to itself; when the plugin was
  set up with \<^verbatim>\<open>browser: true\<close> and the browser map recorded for the importer sends the
  importee, or its absolute form, to \<^verbatim>\<open>false\<close>, \<^verbatim>\<open>resolveId\<close> returns the stub id; and
  \<^verbatim>\<open>load\<close> of the stub id is \<^verbatim>\<open>export default {};\<close>.
\<close>

theorem empty_stub:
  "ES6_BROWSER_EMPTY = CHR 0x00 # ''node-resolve:empty.js'' \<and>
   (\<forall>file. CHR 0x00 \<notin> set file \<longrightarrow> file \<noteq> ES6_BROWSER_EMPTY) \<and>
   resolveId e fs cfg ES6_BROWSER_EMPTY importer s = (Inr (Plain ES6_BROWSER_EMPTY), s) \<and>
   (nodeResolve e options = Inr cfg \<and> opt_browser options \<and>
    browserMapCache s importer = Some browser \<and>
    (browser importee = Some (JBool False) \<or>
     browser (resolve_path e (request_basedir e cfg importee importer) importee) = Some (JBool False)) \<and>
    CHR 0x00 \<notin> set importee \<longrightarrow>
    resolveId e fs cfg importee importer s = (Inr (Plain ES6_BROWSER_EMPTY), s)) \<and>
   load ES6_BROWSER_EMPTY = Some ''export default {};''"
proof (intro conjI allI impI)
  show "ES6_BROWSER_EMPTY = CHR 0x00 # ''node-resolve:empty.js''" by (simp add: ES6_BROWSER_EMPTY_def)
  show "\<And>file. CHR 0x00 \<notin> set file \<Longrightarrow> file \<noteq> ES6_BROWSER_EMPTY"
    by (auto simp: ES6_BROWSER_EMPTY_def)
  show "resolveId e fs cfg ES6_BROWSER_EMPTY importer s = (Inr (Plain ES6_BROWSER_EMPTY), s)"
    by (simp add: resolveId_def)
  show "load ES6_BROWSER_EMPTY = Some ''export default {};''" by (simp add: load_def)
next
  assume a: "nodeResolve e options = Inr cfg \<and> opt_browser options \<and>
    browserMapCache s importer = Some browser \<and>
    (browser importee = Some (JBool False) \<or>
     browser (resolve_path e (request_basedir e cfg importee importer) importee) = Some (JBool False)) \<and>
    CHR 0x00 \<notin> set importee"
  then have mode: "useBrowserOverrides cfg" by (blast intro: browser_mode_setup)
  from a mode have "browser_substitution e cfg (request_basedir e cfg importee importer) importee importer s = Stub"
    by (auto simp: browser_substitution_def get_property_def Let_def)
  with a show "resolveId e fs cfg importee importer s = (Inr (Plain ES6_BROWSER_EMPTY), s)"
    by (auto simp: resolveId_def Let_def ES6_BROWSER_EMPTY_def)
qed

lemma widget_facts:
  "isl (nodeResolve sample_env browser_options) = False"
  "fst (resolveId sample_env sample_fs (sample_config browser_options) ''widget''
            (Some ''/project/main.js'') initial_state)
     = Inr (Resolved (Some ''/project/node_modules/widget/index.js'') None)"
  "browserMapCache widget_resolved (Some ''/project/node_modules/widget/index.js'') \<noteq> None"
  "the (browserMapCache widget_resolved (Some ''/project/node_modules/widget/index.js'')) ''net''
     = Some (JBool False)"
  unfolding widget_resolved_def browser_options_def by code_simp+

theorem empty_stub_witness:
  "fst (resolveId sample_env sample_fs (sample_config browser_options) ''widget''
            (Some ''/project/main.js'') initial_state)
     = Inr (Resolved (Some ''/project/node_modules/widget/index.js'') None) \<and>
   resolveId sample_env sample_fs (sample_config browser_options) ''net''
     (Some ''/project/node_modules/widget/index.js'') widget_resolved
     = (Inr (Plain ES6_BROWSER_EMPTY), widget_resolved) \<and>
   load ES6_BROWSER_EMPTY = Some ''export default {};''"
proof -
  have configured: "nodeResolve sample_env browser_options = Inr (sample_config browser_options)"
    using widget_facts(1) by (cases "nodeResolve sample_env browser_options") (simp_all add: sample_config_def)
  have mode: "opt_browser browser_options" by (simp add: browser_options_def sample_options_def)
  obtain browser where b: "browserMapCache widget_resolved (Some ''/project/node_modules/widget/index.js'') = Some browser"
    using widget_facts(3) by blast
  with widget_facts(4) have f: "browser ''net'' = Some (JBool False)" by simp
  have n: "CHR 0x00 \<notin> set ''net''" by simp
  note t = empty_stub[of sample_env sample_fs "sample_config browser_options"
      "Some ''/project/node_modules/widget/index.js''" widget_resolved browser_options browser "''net''"]
  from t configured mode b f n have "resolveId sample_env sample_fs (sample_config browser_options) ''net''
     (Some ''/project/node_modules/widget/index.js'') widget_resolved
     = (Inr (Plain ES6_BROWSER_EMPTY), widget_resolved)" by blast
  moreover from t have "load ES6_BROWSER_EMPTY = Some ''export default {};''" by blast
  ultimately show ?thesis using widget_facts(2) by blast
qed

section \<open>What generateBundle clears\<close>

lemma getCachedPackageInfo_hit:
  "packageInfoCache s pkgPath = Some info \<Longrightarrow>
   getCachedPackageInfo e fs cfg pkg pkgPath s = (Inr info, s)"
  by (simp add: getCachedPackageInfo_def)

lemma readFileCached_miss:
  "readFile_cache s file = None \<Longrightarrow> fst (readFileCached fs file s) = readFileAsync fs file"
  by (simp add: readFileCached_def split: prod.splits) (metis fst_conv wrapped_miss)

text \<open>
  C5 as stated fails. After the first pass and \<^verbatim>\<open>generateBundle\<close>, the manifest cache
  still has the entry of the first pass, and \<^verbatim>\<open>getCachedPackageInfo\<close>, given the edited
  manifest, answers with the manifest of the first pass.
\<close>

theorem manifest_cache_survives_generateBundle:
  "packageInfoCache (generateBundle first_pass) ''/project/node_modules/fs/package.json'' \<noteq> None \<and>
   map_sum (\<lambda>err. err) cachedPkg
     (fst (getCachedPackageInfo sample_env sample_fs (sample_config sample_options)
            edited_manifest ''/project/node_modules/fs/package.json'' (generateBundle first_pass)))
     = Inr (sample_manifest ''fs'') \<and>
   edited_manifest \<noteq> sample_manifest ''fs''"
  unfolding first_pass_def by code_simp

text \<open>
  C5, amended. \<^verbatim>\<open>generateBundle\<close> empties the three file system probe caches (read-file,
  is-file, is-directory), so the next probe of any path runs the underlying operation
  again; it leaves the manifest cache, the browser map cache and the map from ids to
  package information as they are, and a manifest cached in an earlier pass is still
  served after it.
\<close>

theorem generateBundle_clears_probe_caches_only:
  "readFile_cache (generateBundle s) = clear \<and>
   isFile_cache (generateBundle s) = clear \<and>
   isDir_cache (generateBundle s) = clear \<and>
   fst (readFileCached fs file (generateBundle s)) = readFileAsync fs file \<and>
   fst (isFileCached fs file (generateBundle s)) = isFile_fn fs file \<and>
   fst (isDirCached fs file (generateBundle s)) = isDir_fn fs file \<and>
   packageInfoCache (generateBundle s) = packageInfoCache s \<and>
   browserMapCache (generateBundle s) = browserMapCache s \<and>
   idToPackageInfo (generateBundle s) = idToPackageInfo s \<and>
   (packageInfoCache s pkgPath = Some info \<longrightarrow>
    getCachedPackageInfo e fs cfg pkg pkgPath (generateBundle s) = (Inr info, generateBundle s))"
proof -
  have "fst (readFileCached fs file (generateBundle s)) = readFileAsync fs file"
    by (simp add: readFileCached_miss generateBundle_probe_caches)
  moreover have "packageInfoCache s pkgPath = Some info \<longrightarrow>
    getCachedPackageInfo e fs cfg pkg pkgPath (generateBundle s) = (Inr info, generateBundle s)"
    by (simp add: getCachedPackageInfo_hit generateBundle_def)
  ultimately show ?thesis
    by (simp add: isFileCached_miss isDirCached_miss generateBundle_probe_caches)
      (simp add: generateBundle_def)
qed

theorem generateBundle_clears_probe_caches_only_witness:
  "isFile_cache (generateBundle first_pass) = clear \<and>
   packageInfoCache first_pass ''/project/node_modules/fs/package.json'' \<noteq> None \<and>
   fst (getCachedPackageInfo sample_env sample_fs (sample_config sample_options) edited_manifest
          ''/project/node_modules/fs/package.json'' (generateBundle first_pass))
     = Inr (the (packageInfoCache first_pass ''/project/node_modules/fs/package.json''))"
proof -
  have c: "packageInfoCache first_pass ''/project/node_modules/fs/package.json'' \<noteq> None"
    unfolding first_pass_def by code_simp
  then obtain info where i: "packageInfoCache first_pass ''/project/node_modules/fs/package.json'' = Some info"
    by blast
  note t = generateBundle_clears_probe_caches_only[of first_pass sample_fs _ "''/project/node_modules/fs/package.json''" info
      sample_env "sample_config sample_options" edited_manifest]
  from t have "isFile_cache (generateBundle first_pass) = clear" by blast
  moreover from t i have "getCachedPackageInfo sample_env sample_fs (sample_config sample_options) edited_manifest
          ''/project/node_modules/fs/package.json'' (generateBundle first_pass)
     = (Inr info, generateBundle first_pass)" by blast
  ultimately show ?thesis using c i by simp
qed

section \<open>The candidate for a graph root\<close>

lemma looks_like_path_char: "looks_like_path [c] \<longleftrightarrow> c = CHR ''/''"
  by (auto simp: looks_like_path_def)

lemma root_candidates:
  "importSpecifierList e cfg (c # cs) None =
     Inr ((if c \<noteq> CHR ''/'' then [''./'' @ c # cs] else []) @
          (if builtins e (c # cs) \<and> (\<not> preferBuiltins cfg \<or> \<not> isPreferBuiltinsSet cfg)
           then [(c # cs) @ ''/''] else []) @
          [c # cs])"
  by (simp add: importSpecifierList_def looks_like_path_char)

text \<open>
  C7, at a failing input. For the graph root specifier \<^verbatim>\<open>./main.js\<close>, which starts with
  \<^verbatim>\<open>./\<close>, the candidate \<^verbatim>\<open>././main.js\<close> is put before the specifier: the regular expression
  is applied to the first character, and only a first character \<^verbatim>\<open>/\<close> matches it.
\<close>

theorem root_relative_specifier_gets_candidate:
  "looks_like_path ''./main.js'' \<and>
   importSpecifierList sample_env (sample_config sample_options) ''./main.js'' None
     = Inr [''././main.js'', ''./main.js'']"
  by code_simp

theorem root_relative_specifier_gets_candidate_witness:
  "map_sum (\<lambda>err. err) hd
     (importSpecifierList sample_env (sample_config sample_options) ''./main.js'' None)
     = Inr ''././main.js''"
  using root_relative_specifier_gets_candidate by simp

section \<open>The jail\<close>

text \<open>
  The test of line 444, when neither of the two built-in cases before it applies: a
  path that does not start with the characters of the normalised jail is rejected,
  and a path that does start with them goes on to be accepted.
\<close>

lemma jail_rejects_other_prefix:
  assumes "var_hasPackageEntry s1" and "\<not> preferBuiltins cfg"
    and "jail cfg = Some dir" and "dir \<noteq> []"
    and "\<not> prefix (normalize_path e (trim e dir)) resolved"
  shows "fst (decide fs e cfg importee (Inr (Some resolved), s1)) = Inr Null"
  using assms by (simp add: decide_def Let_def)

lemma jail_admits_prefix:
  assumes "var_hasPackageEntry s1" and "\<not> preferBuiltins cfg"
    and "jail cfg = Some dir" and "dir \<noteq> []"
    and "prefix (normalize_path e (trim e dir)) resolved"
  shows "decide fs e cfg importee (Inr (Some resolved), s1) =
           accept fs e cfg (Some resolved)
             (s1\<lparr>idToPackageInfo := (idToPackageInfo s1)(Some resolved := var_packageInfo s1)\<rparr>)"
  using assms by (simp add: decide_def Let_def)

text \<open>
  C6, at a failing input. With the jail \<^verbatim>\<open>/project\<close>, the specifier
  \<^verbatim>\<open>../project-shared/util.js\<close> imported from \<^verbatim>\<open>/project/main.js\<close> resolves to the file
  \<^verbatim>\<open>/project-shared/util.js\<close>, which is not under \<^verbatim>\<open>/project\<close>, and is returned: its path
  starts with the characters of the jail's.
\<close>

theorem jail_admits_sibling_directory:
  "jail (sample_config (sample_options\<lparr>opt_jail := Some ''/project''\<rparr>)) = Some ''/project'' \<and>
   existsAsync sample_fs ''/project-shared/util.js'' \<and>
   fst (resolveId sample_env sample_fs (sample_config (sample_options\<lparr>opt_jail := Some ''/project''\<rparr>))
          ''../project-shared/util.js'' (Some ''/project/main.js'') initial_state)
     = Inr (Resolved (Some ''/project-shared/util.js'') None)"
  by code_simp

theorem jail_admits_sibling_directory_witness:
  "map_sum (\<lambda>err. err) module_id
     (fst (resolveId sample_env sample_fs (sample_config (sample_options\<lparr>opt_jail := Some ''/project''\<rparr>))
            ''../project-shared/util.js'' (Some ''/project/main.js'') initial_state))
     = Inr (Some ''/project-shared/util.js'') \<and>
   \<not> prefix ''/project/'' ''/project-shared/util.js''"
  using jail_admits_sibling_directory by simp

section \<open>Faults during a resolution\<close>

lemma after_resolution_rejected: "after_resolution fs (Inl err, s) = (Inl err, s)"
  by (simp add: after_resolution_def)

lemma decide_rejected: "decide fs e cfg importee (Inl err, s) = (Inl err, s)"
  by (simp add: decide_def)

text \<open>
  C4 as stated fails. In the sample project \<^verbatim>\<open>stat\<close> of \<^verbatim>\<open>/project/locked.js\<close> fails with
  \<^verbatim>\<open>EACCES\<close>; the resolution of \<^verbatim>\<open>./locked.js\<close> from \<^verbatim>\<open>/project/main.js\<close> fails with that
  error; and \<^verbatim>\<open>resolveId\<close> returns \<^verbatim>\<open>null\<close>.
\<close>

theorem permission_fault_becomes_null:
  "statAsync sample_fs ''/project/locked.js'' = Inl EACCES \<and>
   code EACCES = Some ''EACCES'' \<and>
   fst (sample_resolver ''./locked.js'' initial_state) = Inl EACCES \<and>
   fst (resolveId sample_env sample_fs (sample_config sample_options) ''./locked.js''
          (Some ''/project/main.js'') initial_state) = Inr Null"
  by code_simp

text \<open>
  C4, amended. For a request that reaches the resolution of its candidates (it is not
  the stub id, has no null character, the browser map of the importer leaves a string
  for it, \<^verbatim>\<open>only\<close> admits it and its candidate list is built), an error with which that
  resolution is rejected, such as the permissions failure of a \<^verbatim>\<open>stat\<close>, does not reach
  the caller: the request returns \<^verbatim>\<open>null\<close>. So does a request whose next step (the first
  \<^verbatim>\<open>then\<close>, with the real path of line 424) or last step (the second \<^verbatim>\<open>then\<close>, with the read
  of line 450) is rejected.
\<close>

theorem resolution_faults_become_null:
  assumes reaches: "importee \<noteq> ES6_BROWSER_EMPTY" "CHR 0x00 \<notin> set importee"
      "browser_substitution e cfg (request_basedir e cfg importee importer) importee importer s
         = Importee importee1"
      "\<not> rejected_by_only cfg (only_id e (request_basedir e cfg importee importer) importee1)"
      "importSpecifierList e cfg importee1 importer = Inr candidates"
  shows "(resolveImportSpecifiers
            (request_resolver e fs cfg (request_basedir e cfg importee importer) (declare_variables s))
            candidates (declare_variables s) = (Inl err, s1) \<longrightarrow>
          resolveId e fs cfg importee importer s = (Inr Null, s1)) \<and>
         (after_resolution fs
            (resolveImportSpecifiers
               (request_resolver e fs cfg (request_basedir e cfg importee importer) (declare_variables s))
               candidates (declare_variables s)) = (Inl err, s1) \<longrightarrow>
          resolveId e fs cfg importee importer s = (Inr Null, s1)) \<and>
         (decide fs e cfg importee1
            (after_resolution fs
               (resolveImportSpecifiers
                  (request_resolver e fs cfg (request_basedir e cfg importee importer) (declare_variables s))
                  candidates (declare_variables s))) = (Inl err, s1) \<longrightarrow>
          resolveId e fs cfg importee importer s = (Inr Null, s1))"
proof -
  let ?run = "resolveImportSpecifiers
      (request_resolver e fs cfg (request_basedir e cfg importee importer) (declare_variables s))
      candidates (declare_variables s)"
  from reaches have request: "resolveId e fs cfg importee importer s =
      catch_null (decide fs e cfg importee1 (after_resolution fs ?run))"
    by (simp add: resolveId_def Let_def resolve_request_def)
  have last_step: "decide fs e cfg importee1 (after_resolution fs ?run) = (Inl err, s1) \<Longrightarrow>
      resolveId e fs cfg importee importer s = (Inr Null, s1)"
    by (simp add: request catch_null_def)
  have first_then: "after_resolution fs ?run = (Inl err, s1) \<Longrightarrow>
      resolveId e fs cfg importee importer s = (Inr Null, s1)"
    by (rule last_step) (simp add: decide_rejected)
  have run: "?run = (Inl err, s1) \<Longrightarrow> resolveId e fs cfg importee importer s = (Inr Null, s1)"
    by (rule first_then) (simp add: after_resolution_rejected)
  from run first_then last_step show ?thesis by blast
qed

lemma locked_request:
  "''./locked.js'' \<noteq> ES6_BROWSER_EMPTY" "CHR 0x00 \<notin> set ''./locked.js''"
  "request_basedir sample_env (sample_config sample_options) ''./locked.js'' (Some ''/project/main.js'')
     = ''/project''"
  "browser_substitution sample_env (sample_config sample_options) ''/project''
     ''./locked.js'' (Some ''/project/main.js'') initial_state = Importee ''./locked.js''"
  "\<not> rejected_by_only (sample_config sample_options) (only_id sample_env ''/project'' ''./locked.js'')"
  "importSpecifierList sample_env (sample_config sample_options) ''./locked.js'' (Some ''/project/main.js'')
     = Inr [''./locked.js'']"
  "fst (resolveImportSpecifiers
          (request_resolver sample_env sample_fs (sample_config sample_options) ''/project''
             (declare_variables initial_state))
          [''./locked.js''] (declare_variables initial_state)) = Inl EACCES"
  by code_simp+

theorem resolution_faults_become_null_witness:
  "fst (resolveImportSpecifiers
          (request_resolver sample_env sample_fs (sample_config sample_options) ''/project''
             (declare_variables initial_state))
          [''./locked.js''] (declare_variables initial_state)) = Inl EACCES \<and>
   code EACCES = Some ''EACCES'' \<and>
   fst (resolveId sample_env sample_fs (sample_config sample_options) ''./locked.js''
          (Some ''/project/main.js'') initial_state) = Inr Null"
proof -
  let ?run = "resolveImportSpecifiers
          (request_resolver sample_env sample_fs (sample_config sample_options) ''/project''
             (declare_variables initial_state))
          [''./locked.js''] (declare_variables initial_state)"
  have rejected: "?run = (Inl EACCES, snd ?run)"
    using locked_request(7) by (metis prod.collapse)
  have "resolveId sample_env sample_fs (sample_config sample_options) ''./locked.js''
          (Some ''/project/main.js'') initial_state = (Inr Null, snd ?run)"
    using resolution_faults_become_null[of "''./locked.js''" sample_env "sample_config sample_options"
        "Some ''/project/main.js''" initial_state "''./locked.js''" "[''./locked.js'']"
        sample_fs EACCES "snd ?run", THEN conjunct1]
      locked_request rejected
    by simp
  then show ?thesis using locked_request(7) by (simp add: EACCES_def)
qed

section \<open>The allow-list\<close>

lemma js_split_not_Nil: "js_split P v \<noteq> []"
  by (induction v) (auto split: list.splits)

lemma js_split_first_piece: "hd (js_split P v) = takeWhile (\<lambda>c. \<not> P c) v"
  by (induction v) (auto simp: js_split_not_Nil split: list.splits)

lemma js_split_other_pieces:
  "tl (js_split P v) =
     (if dropWhile (\<lambda>c. \<not> P c) v = [] then [] else js_split P (tl (dropWhile (\<lambda>c. \<not> P c) v)))"
  by (induction v) (auto simp: js_split_not_Nil split: list.splits)

lemma only_id_pieces:
  "only_id e base importee =
     (let piece = takeWhile (\<lambda>c. c \<noteq> CHR ''/'' \<and> c \<noteq> CHR 0x5C);
          rest = dropWhile (\<lambda>c. c \<noteq> CHR ''/'' \<and> c \<noteq> CHR 0x5C) importee
      in if first_is CHR ''@'' (piece importee) \<and> rest \<noteq> []
         then piece importee @ ''/'' @ piece (tl rest)
         else if first_is CHR ''.'' (piece importee) then resolve_path e base importee
         else piece importee)"
proof -
  have sep: "(\<lambda>c. \<not> is_path_sep c) = (\<lambda>c. c \<noteq> CHR ''/'' \<and> c \<noteq> CHR 0x5C)"
    by (auto simp: is_path_sep_def)
  obtain first parts where pieces: "js_split is_path_sep importee = first # parts"
    using js_split_not_Nil[of is_path_sep importee] by (cases "js_split is_path_sep importee") auto
  from pieces js_split_first_piece[of is_path_sep importee]
  have first: "first = takeWhile (\<lambda>c. c \<noteq> CHR ''/'' \<and> c \<noteq> CHR 0x5C) importee"
    by (simp add: sep)
  from pieces js_split_other_pieces[of is_path_sep importee]
  have parts: "parts =
      (if dropWhile (\<lambda>c. c \<noteq> CHR ''/'' \<and> c \<noteq> CHR 0x5C) importee = [] then []
       else js_split is_path_sep (tl (dropWhile (\<lambda>c. c \<noteq> CHR ''/'' \<and> c \<noteq> CHR 0x5C) importee)))"
    by (simp add: sep)
  have second: "dropWhile (\<lambda>c. c \<noteq> CHR ''/'' \<and> c \<noteq> CHR 0x5C) importee \<noteq> [] \<Longrightarrow>
      parts \<noteq> [] \<and>
      hd parts = takeWhile (\<lambda>c. c \<noteq> CHR ''/'' \<and> c \<noteq> CHR 0x5C)
        (tl (dropWhile (\<lambda>c. c \<noteq> CHR ''/'' \<and> c \<noteq> CHR 0x5C) importee))"
    using js_split_first_piece[of is_path_sep] by (simp add: parts js_split_not_Nil sep)
  show ?thesis
  proof (cases "dropWhile (\<lambda>c. c \<noteq> CHR ''/'' \<and> c \<noteq> CHR 0x5C) importee = []")
    case True
    with parts have "parts = []" by simp
    with pieces first True show ?thesis by (simp add: only_id_def Let_def)
  next
    case False
    with second pieces first show ?thesis by (simp add: only_id_def Let_def)
  qed
qed

lemma only_configured:
  "nodeResolve e options = Inr cfg \<Longrightarrow> opt_only options = Some entries \<Longrightarrow>
   only cfg = Some (map only_pattern entries)"
  by (cases "getMainFields options") (auto simp: nodeResolve_def split: if_splits)

lemma some_pattern_matches:
  "list_ex (\<lambda>pattern. pattern ident) (map only_pattern entries) \<longleftrightarrow>
     (\<exists>test. OnlyRegExp test \<in> set entries \<and> test ident) \<or> OnlyString ident \<in> set entries"
proof (induction entries)
  case Nil
  then show ?case by simp
next
  case (Cons entry entries)
  then show ?case by (cases entry) (auto simp: only_pattern_def)
qed

lemma browser_substitution_none:
  "browserMapCache s importer = None \<Longrightarrow>
   browser_substitution e cfg base importee importer s = Importee importee"
  by (simp add: browser_substitution_def)

text \<open>
  For a bare specifier without a backslash, and with a slash when it starts with \<^verbatim>\<open>@\<close>,
  the id tested is the package name that \<^verbatim>\<open>getPackageName\<close> gives.
\<close>

lemma js_split_cong: "\<forall>c\<in>set v. P c = Q c \<Longrightarrow> js_split P v = js_split Q v"
  by (induction v) auto

lemma js_split_single: "js_split P v = [p] \<Longrightarrow> p = v \<and> (\<forall>c\<in>set v. \<not> P c)"
proof (induction v arbitrary: p)
  case Nil
  then show ?case by simp
next
  case (Cons x xs)
  then show ?case
    by (cases "js_split P xs") (auto simp: js_split_not_Nil split: if_splits)
qed

lemma js_split_first: "js_split P v = p # ps \<Longrightarrow> first_is c p \<Longrightarrow> first_is c v"
  by (cases v) (auto simp: first_is_def split: if_splits list.splits)

lemma only_id_is_package_name:
  assumes name: "getPackageName importee = Some name"
    and no_backslash: "CHR 0x5C \<notin> set importee"
    and scoped: "first_is CHR ''@'' importee \<longrightarrow> CHR ''/'' \<in> set importee"
  shows "only_id e base importee = name"
proof -
  from name have bare: "\<not> first_is CHR ''.'' importee" "\<not> first_is CHR ''/'' importee"
    by (auto simp: getPackageName_def split: if_splits)
  from no_backslash have same: "js_split is_path_sep importee = js_split (\<lambda>c. c = CHR ''/'') importee"
    by (intro js_split_cong) (auto simp: is_path_sep_def)
  show ?thesis
  proof (cases "js_split (\<lambda>c. c = CHR ''/'') importee")
    case Nil
    then show ?thesis by (simp add: js_split_not_Nil)
  next
    case (Cons p ps)
    note pieces = Cons
    have dot: "\<not> first_is CHR ''.'' p" using js_split_first[OF pieces] bare by blast
    show ?thesis
    proof (cases ps)
      case Nil
      with pieces have whole: "p = importee" "\<forall>c\<in>set importee. c \<noteq> CHR ''/''"
        using js_split_single[of "\<lambda>c. c = CHR ''/''" importee p] by auto
      with scoped have "\<not> first_is CHR ''@'' p" by auto
      with name pieces Nil same dot bare show ?thesis
        by (simp add: getPackageName_def only_id_def)
    next
      case (Cons q rest)
      with name pieces same dot bare show ?thesis
        by (auto simp: getPackageName_def only_id_def)
    qed
  qed
qed

text \<open>
  C9 as stated fails. The sample project is set up with \<^verbatim>\<open>browser: true\<close> and
  \<^verbatim>\<open>only: [/^wid/, '@scope/pkg']\<close>. The request for \<^verbatim>\<open>widget\<close> from \<^verbatim>\<open>/project/main.js\<close>
  resolves and records the browser map of \<^verbatim>\<open>widget\<close>, which sends \<^verbatim>\<open>net\<close> to \<^verbatim>\<open>false\<close>. The
  request for \<^verbatim>\<open>net\<close> from the file of \<^verbatim>\<open>widget\<close>, whose package name \<^verbatim>\<open>net\<close> no pattern
  matches, returns the stub id and not \<^verbatim>\<open>null\<close>: lines 322-328 answer before the test
  of line 350.
\<close>

theorem stub_answer_bypasses_allow_list:
  "opt_only allow_list_options = Some [OnlyRegExp (prefix ''wid''), OnlyString ''@scope/pkg''] \<and>
   getPackageName ''net'' = Some ''net'' \<and> \<not> prefix ''wid'' ''net'' \<and>
   fst (resolveId sample_env sample_fs (sample_config allow_list_options) ''widget''
          (Some ''/project/main.js'') initial_state)
     = Inr (Resolved (Some ''/project/node_modules/widget/index.js'') None) \<and>
   fst (resolveId sample_env sample_fs (sample_config allow_list_options) ''net''
          (Some ''/project/node_modules/widget/index.js'')
          (snd (resolveId sample_env sample_fs (sample_config allow_list_options) ''widget''
                  (Some ''/project/main.js'') initial_state)))
     = Inr (Plain ES6_BROWSER_EMPTY)"
proof (intro conjI)
  show "opt_only allow_list_options = Some [OnlyRegExp (prefix ''wid''), OnlyString ''@scope/pkg'']"
    by (simp add: allow_list_options_def)
  show "getPackageName ''net'' = Some ''net''" by code_simp
  show "\<not> prefix ''wid'' ''net''" by simp
  show "fst (resolveId sample_env sample_fs (sample_config allow_list_options) ''widget''
          (Some ''/project/main.js'') initial_state)
     = Inr (Resolved (Some ''/project/node_modules/widget/index.js'') None)"
    unfolding allow_list_options_def by code_simp
  show "fst (resolveId sample_env sample_fs (sample_config allow_list_options) ''net''
          (Some ''/project/node_modules/widget/index.js'')
          (snd (resolveId sample_env sample_fs (sample_config allow_list_options) ''widget''
                  (Some ''/project/main.js'') initial_state)))
     = Inr (Plain ES6_BROWSER_EMPTY)"
    unfolding allow_list_options_def by code_simp
qed

text \<open>
  C9, amended. When \<^verbatim>\<open>only\<close> is configured (an array) and the request reaches the test of
  line 350 (it is not the stub id, has no null character, and the browser map of the
  importer leaves a string for it: the specifier tested, which is the importee itself
  when the importer has no browser map), the id tested is the first piece of the
  specifier, the pieces being separated by \<^verbatim>\<open>/\<close> or a backslash; joined by \<^verbatim>\<open>/\<close> to the second piece
  when the first starts with \<^verbatim>\<open>@\<close> and there is a second; and the absolute path of the
  specifier when the first piece starts with a dot. When some entry of \<^verbatim>\<open>only\<close> matches
  that id, a regular expression by its test and a string by being equal to it, the
  request goes on to the resolution of lines 352-458; when no entry does, it returns
  \<^verbatim>\<open>null\<close>.
\<close>

theorem only_allow_list:
  assumes configured: "nodeResolve e options = Inr cfg" "opt_only options = Some entries"
    and reaches: "importee \<noteq> ES6_BROWSER_EMPTY" "CHR 0x00 \<notin> set importee"
      "browser_substitution e cfg (request_basedir e cfg importee importer) importee importer s
         = Importee importee1"
  shows "only_id e (request_basedir e cfg importee importer) importee1 =
           (let piece = takeWhile (\<lambda>c. c \<noteq> CHR ''/'' \<and> c \<noteq> CHR 0x5C);
                rest = dropWhile (\<lambda>c. c \<noteq> CHR ''/'' \<and> c \<noteq> CHR 0x5C) importee1
            in if first_is CHR ''@'' (piece importee1) \<and> rest \<noteq> []
               then piece importee1 @ ''/'' @ piece (tl rest)
               else if first_is CHR ''.'' (piece importee1)
               then resolve_path e (request_basedir e cfg importee importer) importee1
               else piece importee1) \<and>
         (browserMapCache s importer = None \<longrightarrow> importee1 = importee) \<and>
         ((\<exists>test. OnlyRegExp test \<in> set entries \<and>
                   test (only_id e (request_basedir e cfg importee importer) importee1)) \<or>
          OnlyString (only_id e (request_basedir e cfg importee importer) importee1) \<in> set entries \<longrightarrow>
          resolveId e fs cfg importee importer s =
            resolve_request e fs cfg (request_basedir e cfg importee importer) importee1 importer s) \<and>
         (\<not> ((\<exists>test. OnlyRegExp test \<in> set entries \<and>
                      test (only_id e (request_basedir e cfg importee importer) importee1)) \<or>
             OnlyString (only_id e (request_basedir e cfg importee importer) importee1) \<in> set entries) \<longrightarrow>
          resolveId e fs cfg importee importer s = (Inr Null, s))"
proof -
  let ?base = "request_basedir e cfg importee importer"
  from only_configured[OF configured] have compiled: "only cfg = Some (map only_pattern entries)" .
  then have rejected: "rejected_by_only cfg ident \<longleftrightarrow>
      \<not> ((\<exists>test. OnlyRegExp test \<in> set entries \<and> test ident) \<or> OnlyString ident \<in> set entries)"
    for ident
    by (simp add: rejected_by_only_def some_pattern_matches)
  from reaches have request: "resolveId e fs cfg importee importer s =
      (if rejected_by_only cfg (only_id e ?base importee1) then (Inr Null, s)
       else resolve_request e fs cfg ?base importee1 importer s)"
    by (simp add: resolveId_def Let_def)
  have same: "browserMapCache s importer = None \<longrightarrow> importee1 = importee"
    using reaches(3) by (auto simp: browser_substitution_none)
  have accepted: "(\<exists>test. OnlyRegExp test \<in> set entries \<and> test (only_id e ?base importee1)) \<or>
      OnlyString (only_id e ?base importee1) \<in> set entries \<longrightarrow>
      resolveId e fs cfg importee importer s = resolve_request e fs cfg ?base importee1 importer s"
  proof
    assume "(\<exists>test. OnlyRegExp test \<in> set entries \<and> test (only_id e ?base importee1)) \<or>
      OnlyString (only_id e ?base importee1) \<in> set entries"
    with rejected have "\<not> rejected_by_only cfg (only_id e ?base importee1)" by blast
    then show "resolveId e fs cfg importee importer s =
        resolve_request e fs cfg ?base importee1 importer s"
      by (simp add: request)
  qed
  have refused: "\<not> ((\<exists>test. OnlyRegExp test \<in> set entries \<and> test (only_id e ?base importee1)) \<or>
      OnlyString (only_id e ?base importee1) \<in> set entries) \<longrightarrow>
      resolveId e fs cfg importee importer s = (Inr Null, s)"
  proof
    assume "\<not> ((\<exists>test. OnlyRegExp test \<in> set entries \<and> test (only_id e ?base importee1)) \<or>
      OnlyString (only_id e ?base importee1) \<in> set entries)"
    with rejected have "rejected_by_only cfg (only_id e ?base importee1)" by blast
    then show "resolveId e fs cfg importee importer s = (Inr Null, s)"
      by (simp add: request)
  qed
  show ?thesis
    using only_id_pieces[of e ?base importee1] same accepted refused by (intro conjI)
qed

lemma allow_list_entries:
  "opt_only allow_list_options = Some [OnlyRegExp (prefix ''wid''), OnlyString ''@scope/pkg'']"
  by (simp add: allow_list_options_def)

lemma allow_list_sample:
  "isl (nodeResolve sample_env allow_list_options) = False"
  "request_basedir sample_env (sample_config allow_list_options) ''left-pad'' (Some ''/project/main.js'') = ''/project''"
  "request_basedir sample_env (sample_config allow_list_options) ''widget'' (Some ''/project/main.js'') = ''/project''"
  "fst (resolve_request sample_env sample_fs (sample_config allow_list_options) ''/project'' ''widget''
         (Some ''/project/main.js'') initial_state)
     = Inr (Resolved (Some ''/project/node_modules/widget/index.js'') None)"
  "only_id sample_env ''/project'' ''left-pad'' = ''left-pad''"
  "only_id sample_env ''/project'' ''widget'' = ''widget''"
  "prefix ''wid'' ''widget''" "\<not> prefix ''wid'' ''left-pad''"
  unfolding allow_list_options_def by code_simp+

theorem only_allow_list_witness:
  "fst (resolveId sample_env sample_fs (sample_config allow_list_options) ''left-pad''
         (Some ''/project/main.js'') initial_state) = Inr Null \<and>
   fst (resolveId sample_env sample_fs (sample_config allow_list_options) ''widget''
         (Some ''/project/main.js'') initial_state)
     = Inr (Resolved (Some ''/project/node_modules/widget/index.js'') None)"
proof -
  let ?cfg = "sample_config allow_list_options"
  let ?importer = "Some ''/project/main.js''"
  have cfg: "nodeResolve sample_env allow_list_options = Inr ?cfg"
    using allow_list_sample(1)
    by (cases "nodeResolve sample_env allow_list_options") (simp_all add: sample_config_def)
  have sub: "browser_substitution sample_env ?cfg (request_basedir sample_env ?cfg importee ?importer)
      importee ?importer initial_state = Importee importee" for importee
    by (simp add: browser_substitution_none initial_state_def)
  have plain: "''left-pad'' \<noteq> ES6_BROWSER_EMPTY" "''widget'' \<noteq> ES6_BROWSER_EMPTY"
    "CHR 0x00 \<notin> set ''left-pad''" "CHR 0x00 \<notin> set ''widget''"
    by (simp_all add: ES6_BROWSER_EMPTY_def)
  note missing = only_allow_list[OF cfg allow_list_entries plain(1) plain(3) sub, of sample_fs]
  note widget = only_allow_list[OF cfg allow_list_entries plain(2) plain(4) sub, of sample_fs]
  have "resolveId sample_env sample_fs ?cfg ''left-pad'' ?importer initial_state = (Inr Null, initial_state)"
    using missing[THEN conjunct2, THEN conjunct2, THEN conjunct2]
    by (simp add: allow_list_sample)
  moreover have "resolveId sample_env sample_fs ?cfg ''widget'' ?importer initial_state =
      resolve_request sample_env sample_fs ?cfg ''/project'' ''widget'' ?importer initial_state"
    using widget[THEN conjunct2, THEN conjunct2, THEN conjunct1]
    by (simp add: allow_list_sample)
  ultimately show ?thesis by (simp add: allow_list_sample)
qed

section \<open>Built-in modules and local packages of the same name\<close>

lemma computed_entry:
  "computePackageInfo e cfg pkg pkgPath = Inr info \<Longrightarrow>
   hasPackageEntry info = (first_string_field pkg (mainFields cfg) \<noteq> None \<or> ''main'' \<in> set (mainFields cfg))"
  unfolding computePackageInfo_def Let_def
  by (auto split: sum.splits prod.splits if_splits)

lemma probes_keep_entry:
  "entry_known s \<Longrightarrow> entry_known (snd (isFileCached fs file s))"
  "entry_known s \<Longrightarrow> entry_known (snd (isDirCached fs file s))"
  "entry_known s \<Longrightarrow> entry_known (snd (readFileCached fs file s))"
  by (auto simp: entry_known_def isFileCached_def isDirCached_def readFileCached_def split: prod.splits)

lemma packageFilter_keeps_entry:
  assumes "''main'' \<in> set (mainFields cfg)" and "entry_known s"
  shows "entry_known (snd (request_packageFilter e fs cfg pkg pkgPath s))"
proof (cases "packageInfoCache s pkgPath")
  case (Some info)
  with assms(2) show ?thesis
    by (auto simp: request_packageFilter_def getCachedPackageInfo_def entry_known_def)
next
  case None
  show ?thesis
  proof (cases "if preserveSymlinks s = Some True then Inr pkgPath else realpathSync fs pkgPath")
    case (Inl err)
    with None assms(2) show ?thesis
      by (simp add: request_packageFilter_def getCachedPackageInfo_def)
  next
    case (Inr realPath)
    show ?thesis
    proof (cases "computePackageInfo e cfg pkg realPath")
      case (Inl err)
      with None Inr assms(2) show ?thesis
        by (simp add: request_packageFilter_def getCachedPackageInfo_def)
    next
      case computed: (Inr info)
      from computed_entry[OF computed] assms(1) have "hasPackageEntry info" by simp
      with None Inr computed assms(2) show ?thesis
        by (simp add: request_packageFilter_def getCachedPackageInfo_def entry_known_def)
    qed
  qed
qed

lemma callbacks_keep_entry:
  assumes "plugin_callbacks e fs cfg s s'" and "''main'' \<in> set (mainFields cfg)" and "entry_known s"
  shows "entry_known s'"
  using assms
  by (induction rule: plugin_callbacks.induct) (simp_all add: probes_keep_entry packageFilter_keeps_entry)

lemma specifier_loop_keeps:
  assumes resolver: "\<And>candidate s. I s \<Longrightarrow> I (snd (r candidate s))"
  shows "I (snd ps) \<Longrightarrow> I (snd (specifier_loop r candidates ps))"
proof (induction candidates arbitrary: ps)
  case Nil
  then show ?case by simp
next
  case (Cons candidate rest)
  have step: "I (snd (then_resolve r candidate ps))"
    using Cons.prems resolver[of "snd ps" candidate]
    by (cases ps) (auto simp: then_resolve_def split: sum.splits prod.splits)
  then have "I (snd (catch_not_found (then_resolve r candidate ps)))"
    by (cases "then_resolve r candidate ps") (auto simp: catch_not_found_def split: sum.splits)
  with step show ?case by (auto intro: Cons.IH)
qed



lemma after_resolution_keeps_manifests:
  "packageInfoCache (snd (after_resolution fs ps)) = packageInfoCache (snd ps)"
  by (cases ps) (auto simp: after_resolution_def split: sum.splits option.splits json.splits bool.splits)

lemma accept_keeps_state: "snd (accept fs e cfg resolved s) = s"
  by (auto simp: accept_def split: sum.splits)

lemma decide_keeps_manifests:
  "packageInfoCache (snd (decide fs e cfg importee ps)) = packageInfoCache (snd ps)"
proof (cases ps)
  case (Pair p s)
  show ?thesis
  proof (cases p)
    case (Inl err)
    with Pair show ?thesis by (simp add: decide_def)
  next
    case (Inr resolved)
    with Pair show ?thesis
      by (cases resolved) (simp_all add: decide_def Let_def accept_keeps_state)
  qed
qed

lemma catch_null_keeps_state: "snd (catch_null ps) = snd ps"
  by (cases ps) (auto simp: catch_null_def split: sum.splits)

text \<open>
  When \<^verbatim>\<open>mainFields\<close> includes \<^verbatim>\<open>main\<close>, a request leaves every cached manifest with a
  package entry: the condition on the cache holds from the empty cache on.
\<close>

lemma resolveId_keeps_cached_entries:
  assumes library: "\<forall>base s0 file s'. plugin_callbacks e fs cfg s'
        (snd (request_resolver e fs cfg base s0 file s'))"
    and main: "''main'' \<in> set (mainFields cfg)"
    and cached: "\<forall>file info. packageInfoCache s file = Some info \<longrightarrow> hasPackageEntry info"
  shows "\<forall>file info. packageInfoCache (snd (resolveId e fs cfg importee importer s)) file = Some info \<longrightarrow>
           hasPackageEntry info"
proof -
  have request: "\<forall>file info.
      packageInfoCache (snd (resolve_request e fs cfg base importee1 importer s)) file = Some info \<longrightarrow>
      hasPackageEntry info" for base importee1
  proof (cases "importSpecifierList e cfg importee1 importer")
    case (Inl err)
    with cached show ?thesis by (simp add: resolve_request_def declare_variables_def)
  next
    case (Inr candidates)
    let ?r = "request_resolver e fs cfg base (declare_variables s)"
    from cached have start: "entry_known (declare_variables s)"
      by (simp add: entry_known_def declare_variables_def)
    have "entry_known (snd (specifier_loop ?r candidates (Inr None, declare_variables s)))"
    proof (rule specifier_loop_keeps)
      show "entry_known (snd (?r candidate s'))" if "entry_known s'" for candidate s'
        using library callbacks_keep_entry[OF _ main that] by blast
      show "entry_known (snd (Inr None, declare_variables s))" using start by simp
    qed
    then have "\<forall>file info.
        packageInfoCache (snd (resolveImportSpecifiers ?r candidates (declare_variables s))) file = Some info \<longrightarrow>
        hasPackageEntry info"
      by (simp add: resolveImportSpecifiers_def entry_known_def)
    with Inr show ?thesis
      by (simp add: resolve_request_def Let_def catch_null_keeps_state decide_keeps_manifests
          after_resolution_keeps_manifests)
  qed
  show ?thesis
    using cached request
    by (auto simp: resolveId_def Let_def split: substitution.splits)
qed








lemma catch_null_fulfilment: "catch_null (Inr v, s) = (Inr v, s)"
  by (simp add: catch_null_def)















end
